theory Spec2Isabelle
  imports Main
begin

section \<open>JavaScript values used by the wallet code\<close>

text \<open>
  A JavaScript \<open>number\<close> as this program produces it: the integers of the index
  literals and of \<open>parseInt\<close>, and \<open>NaN\<close>, which \<open>parseInt\<close> returns on a string
  without a leading digit. Fractions are not modelled.
\<close>

datatype number = Num int | NaN

text \<open>
  Every \<open>throw\<close> of the source and of the library it calls is a value of this type.
  \<open>UnknownAlgo\<close> is the \<open>Error\<close> of \<open>algoConst\<close>, \<open>NoImportMethod\<close> the one of
  \<open>wallet:import\<close>; \<open>LibraryError\<close> is anything the network client library throws,
  \<open>SyntaxError\<close> is thrown by \<open>JSON.parse\<close>, \<open>IOError\<close> by \<open>node:fs\<close>.
  \<open>NotAWallet\<close> marks a parsed document that is not of the declared type \<open>Wallet\<close>:
  the source casts it unchecked, and such documents are outside this model.
\<close>

datatype error =
    UnknownAlgo string
  | NoImportMethod
  | LibraryError string
  | SyntaxError
  | IOError
  | NotAWallet

text \<open>Truthiness of an optional string: \<open>undefined\<close> and \<open>""\<close> are falsy.\<close>

definition truthy :: "string option \<Rightarrow> bool" where
  "truthy v = (case v of None \<Rightarrow> False | Some s \<Rightarrow> s \<noteq> [])"

text \<open>\<open>v || d\<close> on an optional string.\<close>

definition orElse :: "string option \<Rightarrow> string \<Rightarrow> string" where
  "orElse v d = (case v of None \<Rightarrow> d | Some s \<Rightarrow> (if s = [] then d else s))"

text \<open>\<open>v || 0\<close> on an optional number: \<open>undefined\<close>, \<open>0\<close> and \<open>NaN\<close> are falsy.\<close>

definition orZero :: "number option \<Rightarrow> number" where
  "orZero v = (case v of None \<Rightarrow> Num 0 | Some NaN \<Rightarrow> Num 0 | Some (Num n) \<Rightarrow> Num n)"

section \<open>The wallet record and the account resolver (lib/keeta.ts)\<close>

record Wallet =
  seed :: "string option"
  index :: "number option"
  algo :: "string option"
  privateKeySecp256k1 :: "string option"
  address :: "string option"

datatype AccountKeyAlgorithm = ED25519 | ECDSA_SECP256K1 | ECDSA_SECP256R1

text \<open>
  One entry of \<open>client.allBalances()\<close>: the token and its balance, a \<open>bigint\<close>
  when present. The source reads \<open>tokenInfo.balance || 0\<close>.
\<close>

type_synonym tokenInfo = "string \<times> int option"

text \<open>\<open>info.balances\<close> of \<open>getAccountInfo\<close>: an array or an object of entries.\<close>

datatype balances = AsArray "string list" | AsObject "(string \<times> string) list"

text \<open>
  The network client library (\<open>@keetanetwork/keetanet-client\<close>) and the process
  environment, as parameters: \<open>'a\<close> is the library's account, \<open>'c\<close> its client.
  Each function returns \<open>Inl\<close> where the library throws. \<open>readOnlyClientFrom\<close> is
  imported by commands/wallet.ts from lib/keeta.js; the lib/keeta.ts at hand does not
  define it, so it is a parameter as well. \<open>toLowerCase\<close> is
  \<open>String.prototype.toLowerCase\<close> of the runtime, whose case mapping is the Unicode
  table: a parameter too.
\<close>

record ('a, 'c) Lib =
  homedir :: string
  fromSeed :: "string option \<Rightarrow> number \<Rightarrow> AccountKeyAlgorithm \<Rightarrow> error + 'a"
  fromECDSASECP256K1PrivateKey :: "string \<Rightarrow> error + 'a"
  publicKeyString :: "'a \<Rightarrow> string"
  seedFromPassphrase :: "string \<Rightarrow> error + string"
  fromNetwork :: "string \<Rightarrow> 'a option \<Rightarrow> error + 'c"
  allBalances :: "'c \<Rightarrow> error + tokenInfo list"
  readOnlyClientFrom :: "string \<Rightarrow> error + 'c"
  getAccountInfo :: "'c \<Rightarrow> 'a \<Rightarrow> error + balances option"
  toLowerCase :: "string \<Rightarrow> string"

definition algoConst :: "string \<Rightarrow> error + AccountKeyAlgorithm" where
  "algoConst name =
     (if name = ''ed25519'' then Inr ED25519
      else if name = ''secp256k1'' then Inr ECDSA_SECP256K1
      else if name = ''secp256r1'' then Inr ECDSA_SECP256R1
      else Inl (UnknownAlgo name))"

definition accountFromWallet :: "('a, 'c) Lib \<Rightarrow> Wallet \<Rightarrow> error + 'a" where
  "accountFromWallet L wallet =
     (if truthy (privateKeySecp256k1 wallet)
      then (case privateKeySecp256k1 wallet of
              Some k \<Rightarrow> fromECDSASECP256K1PrivateKey L k
            | None \<Rightarrow> Inl (LibraryError ''undefined''))
      else (case algoConst (orElse (algo wallet) ''ed25519'') of
              Inl e \<Rightarrow> Inl e
            | Inr a \<Rightarrow> fromSeed L (seed wallet) (orZero (index wallet)) a))"

definition clientFrom :: "('a, 'c) Lib \<Rightarrow> string \<Rightarrow> 'a option \<Rightarrow> error + 'c" where
  "clientFrom L network account = fromNetwork L network account"

section \<open>String operations of the JavaScript runtime\<close>

text \<open>
  A string is the UTF-8 encoding of the JavaScript string. The white space of \<open>trim\<close>,
  of the pattern \<open>\s\<close> and of \<open>parseInt\<close> is the same set: tab, line feed,
  vertical tab, form feed, carriage return, space, U+00A0, U+1680, U+2000 to U+200A,
  U+2028, U+2029, U+202F, U+205F, U+3000 and U+FEFF.
\<close>

definition whiteSpace :: "string list" where
  "whiteSpace =
     [[CHR 0x09], [CHR 0x0A], [CHR 0x0B], [CHR 0x0C], [CHR 0x0D], [CHR 0x20],
      [CHR 0xC2, CHR 0xA0], [CHR 0xE1, CHR 0x9A, CHR 0x80],
      [CHR 0xE2, CHR 0x80, CHR 0x80], [CHR 0xE2, CHR 0x80, CHR 0x81],
      [CHR 0xE2, CHR 0x80, CHR 0x82], [CHR 0xE2, CHR 0x80, CHR 0x83],
      [CHR 0xE2, CHR 0x80, CHR 0x84], [CHR 0xE2, CHR 0x80, CHR 0x85],
      [CHR 0xE2, CHR 0x80, CHR 0x86], [CHR 0xE2, CHR 0x80, CHR 0x87],
      [CHR 0xE2, CHR 0x80, CHR 0x88], [CHR 0xE2, CHR 0x80, CHR 0x89],
      [CHR 0xE2, CHR 0x80, CHR 0x8A], [CHR 0xE2, CHR 0x80, CHR 0xA8],
      [CHR 0xE2, CHR 0x80, CHR 0xA9], [CHR 0xE2, CHR 0x80, CHR 0xAF],
      [CHR 0xE2, CHR 0x81, CHR 0x9F], [CHR 0xE3, CHR 0x80, CHR 0x80],
      [CHR 0xEF, CHR 0xBB, CHR 0xBF]]"

text \<open>
  The number of bytes of the white-space character, taken from the table \<open>tab\<close>, that
  \<open>s\<close> starts with; 0 when it starts with none.
\<close>

definition spaceLen :: "string list \<Rightarrow> string \<Rightarrow> nat" where
  "spaceLen tab s =
     (case find (\<lambda>w. take (length w) s = w) tab of None \<Rightarrow> 0 | Some w \<Rightarrow> length w)"

text \<open>
  Dropping the white space a string starts with; \<open>skip\<close> counts the bytes still to
  drop of the character being dropped.
\<close>

fun dropSpaces :: "string list \<Rightarrow> nat \<Rightarrow> string \<Rightarrow> string" where
  "dropSpaces tab skip [] = []"
| "dropSpaces tab skip (c # cs) =
     (if skip > 0 then dropSpaces tab (skip - 1) cs
      else (case spaceLen tab (c # cs) of
              0 \<Rightarrow> c # cs
            | Suc n \<Rightarrow> dropSpaces tab n cs))"

text \<open>\<open>s.trim()\<close>; the white space at the end is matched on the reversed string.\<close>

definition trim :: "string \<Rightarrow> string" where
  "trim s = rev (dropSpaces (map rev whiteSpace) 0 (rev (dropSpaces whiteSpace 0 s)))"

text \<open>
  \<open>s.split(/\s+/)\<close>: \<open>cur\<close> is the word being read, reversed; \<open>gap\<close> says that the
  last character was white space; \<open>skip\<close> counts the bytes still to pass of a
  white-space character. The empty string splits into one empty word.
\<close>

fun splitWs :: "string \<Rightarrow> bool \<Rightarrow> nat \<Rightarrow> string \<Rightarrow> string list" where
  "splitWs cur gap skip [] = [rev cur]"
| "splitWs cur gap skip (c # cs) =
     (if skip > 0 then splitWs cur gap (skip - 1) cs
      else (case spaceLen whiteSpace (c # cs) of
              0 \<Rightarrow> splitWs (c # cur) False 0 cs
            | Suc n \<Rightarrow>
                (if gap then splitWs cur True n cs else rev cur # splitWs [] True n cs)))"

definition words :: "string \<Rightarrow> string list" where
  "words s = splitWs [] False 0 s"

text \<open>\<open>s.split(',')\<close>.\<close>

fun splitComma :: "string \<Rightarrow> string list" where
  "splitComma [] = [[]]"
| "splitComma (c # cs) =
     (if c = CHR '','' then [] # splitComma cs
      else (case splitComma cs of w # ws \<Rightarrow> (c # w) # ws | [] \<Rightarrow> [[c]]))"

text \<open>The case mapping on the letters A to Z, all that the sample runtime needs.\<close>

definition asciiLowerCase :: "string \<Rightarrow> string" where
  "asciiLowerCase s =
     map (\<lambda>c. case map_of (zip ''ABCDEFGHIJKLMNOPQRSTUVWXYZ'' ''abcdefghijklmnopqrstuvwxyz'') c of
                 Some d \<Rightarrow> d | None \<Rightarrow> c) s"

definition startsWith :: "string \<Rightarrow> string \<Rightarrow> bool" where
  "startsWith s p = (take (length p) s = p)"

text \<open>\<open>s.startsWith('0x') ? s.slice(2) : s\<close>, as both import paths write it.\<close>

definition strip0x :: "string \<Rightarrow> string" where
  "strip0x s = (if startsWith s ''0x'' then drop 2 s else s)"

definition digitOf :: "nat \<Rightarrow> char \<Rightarrow> nat option" where
  "digitOf radix c =
     (case map_of (zip ''0123456789abcdef'' [0, 1, 2, 3, 4, 5, 6, 7, 8, 9, 10, 11, 12, 13, 14, 15]
                   @ zip ''ABCDEF'' [10, 11, 12, 13, 14, 15]) c of
        Some v \<Rightarrow> (if v < radix then Some v else None)
      | None \<Rightarrow> None)"

fun takeDigits :: "nat \<Rightarrow> string \<Rightarrow> nat list" where
  "takeDigits radix [] = []"
| "takeDigits radix (c # cs) =
     (case digitOf radix c of None \<Rightarrow> [] | Some v \<Rightarrow> v # takeDigits radix cs)"

text \<open>
  \<open>parseInt(s)\<close> with no radix: leading white space, a sign, a \<open>0x\<close> prefix for
  base 16, then the longest run of digits; \<open>NaN\<close> when that run is empty.
\<close>

definition parseInt :: "string \<Rightarrow> number" where
  "parseInt s =
     (let t = dropSpaces whiteSpace 0 s;
          neg = (case t of c # _ \<Rightarrow> c = CHR ''-'' | [] \<Rightarrow> False);
          u = (case t of c # r \<Rightarrow> (if c = CHR ''-'' \<or> c = CHR ''+'' then r else t) | [] \<Rightarrow> t);
          hex = (take 2 u = ''0x'' \<or> take 2 u = ''0X'');
          radix = (if hex then 16 else 10);
          ds = takeDigits radix (if hex then drop 2 u else u)
      in if ds = [] then NaN
         else Num ((if neg then - 1 else 1) * foldl (\<lambda>a d. a * int radix + int d) 0 ds))"

section \<open>The file system and JSON\<close>

datatype json = JNull | JNum int | JStr string | JObj "(string \<times> json) list"

text \<open>
  The text of a file is represented by what \<open>JSON.parse\<close> makes of it: the JSON
  value it denotes, or nothing when \<open>JSON.parse\<close> throws. That parsing the text
  \<open>JSON.stringify\<close> wrote gives back the value written, for a value built from
  objects, strings, integers and \<open>null\<close>, is a property of the two built-ins and part
  of this representation. What \<open>JSON.stringify\<close> does to a wallet before that is
  modelled below.
\<close>

datatype content = Unparseable | Parses json

text \<open>
  \<open>denied\<close> are the paths on which \<open>mkdirSync\<close> and \<open>writeFileSync\<close> fail;
  \<open>journal\<close> lists the paths of the successful calls of the two, in order.
  \<open>dirs\<close> holds every directory there is, the working directory \<open>.\<close> and the
  root among them when paths below them are used.
\<close>

record FS =
  files :: "string \<Rightarrow> content option"
  dirs :: "string set"
  denied :: "string set"
  journal :: "string list"

definition existsSync :: "FS \<Rightarrow> string \<Rightarrow> bool" where
  "existsSync fs p = (files fs p \<noteq> None \<or> p \<in> dirs fs)"

text \<open>Directories above the created one are not tracked.\<close>

definition mkdirSync :: "string \<Rightarrow> FS \<Rightarrow> error option \<times> FS" where
  "mkdirSync p fs =
     (if p \<in> denied fs then (Some IOError, fs)
      else (None, fs\<lparr>dirs := insert p (dirs fs), journal := journal fs @ [p]\<rparr>))"

definition readFileSync :: "string \<Rightarrow> FS \<Rightarrow> error + content" where
  "readFileSync f fs = (case files fs f of None \<Rightarrow> Inl IOError | Some c \<Rightarrow> Inr c)"

text \<open>
  \<open>path.dirname\<close> (POSIX): scanning from the end down to index 1, skip the
  trailing slashes and the last component; the first slash after that ends the result.
  \<open>dirnameScan\<close> walks the reversed characters of indices \<open>\<ge> 1\<close> and returns the
  characters of indices \<open>1 ..< end\<close>.
\<close>

fun dirnameScan :: "string \<Rightarrow> bool \<Rightarrow> string option" where
  "dirnameScan [] matchedSlash = None"
| "dirnameScan (c # cs) matchedSlash =
     (if c = CHR ''/''
      then (if \<not> matchedSlash then Some (rev cs) else dirnameScan cs matchedSlash)
      else dirnameScan cs False)"

definition dirname :: "string \<Rightarrow> string" where
  "dirname p =
     (case p of
        [] \<Rightarrow> ''.''
      | c0 # rest \<Rightarrow>
          (case dirnameScan (rev rest) True of
             None \<Rightarrow> (if c0 = CHR ''/'' then ''/'' else ''.'')
           | Some pre \<Rightarrow> (if c0 = CHR ''/'' \<and> pre = [] then ''//'' else c0 # pre)))"

text \<open>
  \<open>writeFileSync\<close> fails on a denied path, on a directory, and when the parent of
  the path is not a directory (\<open>ENOENT\<close>, \<open>ENOTDIR\<close>).
\<close>

definition writeFileSync :: "string \<Rightarrow> content \<Rightarrow> FS \<Rightarrow> error option \<times> FS" where
  "writeFileSync f c fs =
     (if f \<in> denied fs \<or> f \<in> dirs fs \<or> dirname f \<notin> dirs fs then (Some IOError, fs)
      else (None, fs\<lparr>files := (files fs)(f \<mapsto> c), journal := journal fs @ [f]\<rparr>))"

text \<open>
  \<open>path.join(homedir(), '.keeta', 'wallet.json')\<close>, for a home directory that is a
  normalised path without a trailing slash.
\<close>

definition defaultKeyfile :: "('a, 'c) Lib \<Rightarrow> string" where
  "defaultKeyfile L = homedir L @ ''/.keeta/wallet.json''"

definition ensureDir :: "string \<Rightarrow> FS \<Rightarrow> error option \<times> FS" where
  "ensureDir p fs =
     (let dir = dirname p
      in if \<not> existsSync fs dir then mkdirSync dir fs else (None, fs))"

text \<open>
  \<open>JSON.stringify(w, null, 2)\<close>: a property whose value is \<open>undefined\<close> is left
  out, \<open>NaN\<close> is written as \<open>null\<close>. The keys are written in the order of the type's
  declaration; the order of the keys in the file is not modelled.
\<close>

definition property :: "string \<Rightarrow> json option \<Rightarrow> (string \<times> json) list" where
  "property k v = (case v of None \<Rightarrow> [] | Some j \<Rightarrow> [(k, j)])"

definition numberJson :: "number \<Rightarrow> json" where
  "numberJson n = (case n of Num i \<Rightarrow> JNum i | NaN \<Rightarrow> JNull)"

definition JSON_stringify :: "Wallet \<Rightarrow> content" where
  "JSON_stringify w =
     Parses (JObj (property ''seed'' (map_option JStr (seed w))
                 @ property ''index'' (map_option numberJson (index w))
                 @ property ''algo'' (map_option JStr (algo w))
                 @ property ''privateKeySecp256k1'' (map_option JStr (privateKeySecp256k1 w))
                 @ property ''address'' (map_option JStr (address w))))"

definition JSON_parse :: "content \<Rightarrow> error + json" where
  "JSON_parse c = (case c of Unparseable \<Rightarrow> Inl SyntaxError | Parses j \<Rightarrow> Inr j)"

text \<open>
  The cast of the parsed value to \<open>Wallet | null\<close>. On a repeated key the last
  binding counts. The outer \<open>None\<close> of a field says that its value is not of the
  declared type.
\<close>

definition stringField :: "(string \<times> json) list \<Rightarrow> string \<Rightarrow> string option option" where
  "stringField kvs k =
     (case map_of (rev kvs) k of
        None \<Rightarrow> Some None
      | Some (JStr s) \<Rightarrow> Some (Some s)
      | Some _ \<Rightarrow> None)"

definition numberField :: "(string \<times> json) list \<Rightarrow> string \<Rightarrow> number option option" where
  "numberField kvs k =
     (case map_of (rev kvs) k of
        None \<Rightarrow> Some None
      | Some (JNum i) \<Rightarrow> Some (Some (Num i))
      | Some _ \<Rightarrow> None)"

definition asWallet :: "json \<Rightarrow> error + Wallet option" where
  "asWallet j =
     (case j of
        JNull \<Rightarrow> Inr None
      | JObj kvs \<Rightarrow>
          (case (stringField kvs ''seed'', numberField kvs ''index'', stringField kvs ''algo'',
                 stringField kvs ''privateKeySecp256k1'', stringField kvs ''address'') of
             (Some s, Some i, Some a, Some k, Some d) \<Rightarrow>
               Inr (Some \<lparr>seed = s, index = i, algo = a, privateKeySecp256k1 = k, address = d\<rparr>)
           | _ \<Rightarrow> Inl NotAWallet)
      | _ \<Rightarrow> Inl NotAWallet)"

definition saveWallet :: "('a, 'c) Lib \<Rightarrow> Wallet \<Rightarrow> string option \<Rightarrow> FS \<Rightarrow> error option \<times> FS" where
  "saveWallet L w file fs =
     (let f = orElse file (defaultKeyfile L)
      in case ensureDir f fs of
           (Some e, fs1) \<Rightarrow> (Some e, fs1)
         | (None, fs1) \<Rightarrow> writeFileSync f (JSON_stringify w) fs1)"

definition loadWallet :: "('a, 'c) Lib \<Rightarrow> string option \<Rightarrow> FS \<Rightarrow> error + Wallet option" where
  "loadWallet L file fs =
     (let f = orElse file (defaultKeyfile L)
      in if \<not> existsSync fs f then Inr None
         else (case readFileSync f fs of
                 Inl e \<Rightarrow> Inl e
               | Inr c \<Rightarrow> (case JSON_parse c of Inl e \<Rightarrow> Inl e | Inr j \<Rightarrow> asWallet j)))"

text \<open>\<open>getKeyfile(opts)\<close>, given \<open>opts.keyfile\<close>.\<close>

definition getKeyfile :: "('a, 'c) Lib \<Rightarrow> string option \<Rightarrow> string" where
  "getKeyfile L keyfile = orElse keyfile (defaultKeyfile L)"

text \<open>
  \<open>opts.keyfile\<close> as the commands of commands/wallet.ts declare the option,
  \<open>.option('--keyfile <path>', ..., '~/.keeta/wallet.json')\<close>: the path given on the
  command line, or the declared default, which \<open>node:fs\<close> takes literally.
\<close>

definition keyfileOption :: "string option \<Rightarrow> string option" where
  "keyfileOption given = (case given of None \<Rightarrow> Some ''~/.keeta/wallet.json'' | Some p \<Rightarrow> Some p)"

section \<open>Command results\<close>

text \<open>
  How an action ends: it returns, it calls \<open>process.exit\<close> with a code after
  printing a message (kept here without its emoji), or an exception leaves it uncaught.
\<close>

datatype exit = Returned | Exited nat string | Threw error

section \<open>Auto-detection on import (commands/wallet.ts, wallet:import)\<close>

text \<open>
  What one pass of the inner loop prints: the candidate with its address, token
  count and total; no balance; the inner \<open>catch\<close>; the outer \<open>catch\<close>.
\<close>

datatype probeStatus =
    Found Wallet string nat int
  | NoBalance
  | NetworkError
  | DerivationError error

record Search =
  foundWallet :: "Wallet option"
  maxBalance :: int
  foundAddress :: string
  trace :: "(string \<times> int \<times> probeStatus) list"

definition algorithms :: "string list" where
  "algorithms = [''ed25519'', ''secp256k1'', ''secp256r1'']"

definition indices :: "int list" where
  "indices = [0, 1, 2, 3, 4, 5]"

definition testWallet :: "string \<Rightarrow> int \<Rightarrow> string \<Rightarrow> Wallet" where
  "testWallet sd i testAlgo =
     \<lparr>seed = Some sd, index = Some (Num i), algo = Some testAlgo,
      privateKeySecp256k1 = None, address = None\<rparr>"

text \<open>
  The sum over \<open>Object.entries(balances)\<close> of \<open>BigInt(tokenInfo.balance || 0)\<close>; the
  round trip of each entry through \<open>JSON.stringify\<close> and \<open>BigInt\<close> gives back the
  \<open>bigint\<close> it started from.
\<close>

definition totalBalance :: "tokenInfo list \<Rightarrow> int" where
  "totalBalance balances =
     foldl (\<lambda>tot (tokenId, b). tot + (case b of None \<Rightarrow> 0 | Some n \<Rightarrow> n)) 0 balances"

definition probe :: "('a, 'c) Lib \<Rightarrow> string \<Rightarrow> string \<Rightarrow> string \<Rightarrow> int \<Rightarrow> probeStatus" where
  "probe L mnemonic network testAlgo i =
     (case seedFromPassphrase L mnemonic of
        Inl e \<Rightarrow> DerivationError e
      | Inr sd \<Rightarrow>
          (case accountFromWallet L (testWallet sd i testAlgo) of
             Inl e \<Rightarrow> DerivationError e
           | Inr acct \<Rightarrow>
               (case clientFrom L network (Some acct) of
                  Inl e \<Rightarrow> DerivationError e
                | Inr client \<Rightarrow>
                    (case allBalances L client of
                       Inl e \<Rightarrow> NetworkError
                     | Inr balances \<Rightarrow>
                         (if length balances > 0
                          then Found (testWallet sd i testAlgo) (publicKeyString L acct)
                                 (length balances) (totalBalance balances)
                          else NoBalance)))))"

definition autoDetectStep ::
  "('a, 'c) Lib \<Rightarrow> string \<Rightarrow> string \<Rightarrow> string \<Rightarrow> Search \<Rightarrow> int \<Rightarrow> Search" where
  "autoDetectStep L mnemonic network testAlgo st i =
     (let status = probe L mnemonic network testAlgo i;
          st1 = st\<lparr>trace := trace st @ [(testAlgo, i, status)]\<rparr>
      in case status of
           Found w addr n tot \<Rightarrow>
             (if tot > maxBalance st
              then st1\<lparr>maxBalance := tot, foundWallet := Some w, foundAddress := addr\<rparr>
              else st1)
         | _ \<Rightarrow> st1)"

definition autoDetect :: "('a, 'c) Lib \<Rightarrow> string \<Rightarrow> string \<Rightarrow> Search" where
  "autoDetect L mnemonic network =
     foldl (\<lambda>st testAlgo. foldl (autoDetectStep L mnemonic network testAlgo) st indices)
       \<lparr>foundWallet = None, maxBalance = 0, foundAddress = [], trace = []\<rparr>
       algorithms"

record ImportOpts =
  o_seed :: "string option"
  o_priv :: "string option"
  o_mnemonic :: "string option"
  o_algo :: string
  o_index :: string
  o_autoDetect :: bool
  o_network :: string
  o_keyfile :: "string option"

text \<open>The end of the action, from \<open>getKeyfile\<close> on: save, then resolve the address.\<close>

definition importSave :: "('a, 'c) Lib \<Rightarrow> ImportOpts \<Rightarrow> Wallet \<Rightarrow> FS \<Rightarrow> exit \<times> FS" where
  "importSave L opts wallet fs =
     (let keyfile = getKeyfile L (o_keyfile opts)
      in case saveWallet L wallet (Some keyfile) fs of
           (Some e, fs1) \<Rightarrow> (Threw e, fs1)
         | (None, fs1) \<Rightarrow>
             (case accountFromWallet L wallet of
                Inl e \<Rightarrow> (Threw e, fs1)
              | Inr acct \<Rightarrow> (Returned, fs1)))"

definition importMnemonic :: "('a, 'c) Lib \<Rightarrow> ImportOpts \<Rightarrow> string \<Rightarrow> FS \<Rightarrow> exit \<times> FS" where
  "importMnemonic L opts alg fs =
     (let mnemonic = trim (orElse (o_mnemonic opts) [])
      in if length (words mnemonic) \<noteq> 24
         then (Exited 1 ''Mnemonic must be exactly 24 words'', fs)
         else if o_autoDetect opts
         then (case foundWallet (autoDetect L mnemonic (o_network opts)) of
                 Some w \<Rightarrow> importSave L opts w fs
               | None \<Rightarrow> (Exited 1 ''No wallet with balance found on this network'', fs))
         else (case seedFromPassphrase L mnemonic of
                 Inl e \<Rightarrow> (Threw e, fs)
               | Inr sd \<Rightarrow>
                   importSave L opts
                     \<lparr>seed = Some sd, index = Some (parseInt (o_index opts)), algo = Some alg,
                      privateKeySecp256k1 = None, address = None\<rparr> fs))"

definition walletImport :: "('a, 'c) Lib \<Rightarrow> ImportOpts \<Rightarrow> FS \<Rightarrow> exit \<times> FS" where
  "walletImport L opts fs =
     (if \<not> truthy (o_seed opts) \<and> \<not> truthy (o_priv opts) \<and> \<not> truthy (o_mnemonic opts)
      then (Exited 1 ''Must provide --seed, --priv, or --mnemonic'', fs)
      else
        (let alg = toLowerCase L (o_algo opts)
         in if truthy (o_mnemonic opts) then importMnemonic L opts alg fs
            else if truthy (o_seed opts)
            then importSave L opts
                   \<lparr>seed = Some (strip0x (orElse (o_seed opts) [])), index = None,
                    algo = Some alg, privateKeySecp256k1 = None, address = None\<rparr> fs
            else if truthy (o_priv opts)
            then (if alg \<noteq> ''secp256k1''
                  then (Exited 1 ''Private key import only supports secp256k1'', fs)
                  else importSave L opts
                         \<lparr>seed = None, index = None, algo = Some alg,
                          privateKeySecp256k1 = Some (strip0x (orElse (o_priv opts) [])),
                          address = None\<rparr> fs)
            else (Threw NoImportMethod, fs)))"

section \<open>wallet:address\<close>

definition walletAddress :: "('a, 'c) Lib \<Rightarrow> string option \<Rightarrow> FS \<Rightarrow> exit \<times> string list" where
  "walletAddress L keyfile fs =
     (case loadWallet L (Some (getKeyfile L keyfile)) fs of
        Inl e \<Rightarrow> (Threw e, [])
      | Inr None \<Rightarrow> (Exited 1 ''No wallet found.'', [])
      | Inr (Some wallet) \<Rightarrow>
          (case accountFromWallet L wallet of
             Inl e \<Rightarrow> (Threw e, [])
           | Inr acct \<Rightarrow> (Returned, [publicKeyString L acct])))"

section \<open>wallet:scan-balances\<close>

record ScanOpts =
  s_mnemonic :: "string option"
  s_algos :: string
  s_start :: string
  s_end :: string
  s_network :: string
  s_verbose :: bool
  s_keyfile :: "string option"

text \<open>
  What the scan leaves behind: the matches pushed to \<open>found\<close>, the accounts handed
  to \<open>getAccountInfo\<close> (the network calls, in order), and the pairs that printed
  \<open>network error\<close>.
\<close>

record 'a Scan =
  found :: "(string \<times> int \<times> string \<times> balances) list"
  queried :: "'a list"
  failed :: "(string \<times> int) list"

definition noScan :: "'a Scan" where
  "noScan = \<lparr>found = [], queried = [], failed = []\<rparr>"

text \<open>The seed and the default algorithm: from the mnemonic, or from the stored wallet.\<close>

definition scanSeed :: "('a, 'c) Lib \<Rightarrow> ScanOpts \<Rightarrow> FS \<Rightarrow> exit + string \<times> string" where
  "scanSeed L opts fs =
     (if truthy (s_mnemonic opts)
      then
        (let mnemonic = trim (orElse (s_mnemonic opts) [])
         in if length (words mnemonic) \<noteq> 24
            then Inl (Exited 1 ''Mnemonic must be exactly 24 words'')
            else (case seedFromPassphrase L mnemonic of
                    Inl e \<Rightarrow> Inl (Threw e)
                  | Inr sd \<Rightarrow> Inr (sd, ''ed25519'')))
      else
        (case loadWallet L (Some (defaultKeyfile L)) fs of
           Inl e \<Rightarrow> Inl (Threw e)
         | Inr None \<Rightarrow> Inl (Exited 1 ''No wallet seed found. Provide --mnemonic or create/import a wallet first.'')
         | Inr (Some wallet) \<Rightarrow>
             (if \<not> truthy (seed wallet) \<and> \<not> truthy (privateKeySecp256k1 wallet)
              then Inl (Exited 1 ''No wallet seed found. Provide --mnemonic or create/import a wallet first.'')
              else if truthy (privateKeySecp256k1 wallet)
              then Inl (Exited 1 ''Scanning requires a seed-based wallet. Private key import cannot derive indices.'')
              else Inr (orElse (seed wallet) [], orElse (algo wallet) ''ed25519''))))"

definition scanRange :: "ScanOpts \<Rightarrow> exit + int \<times> int" where
  "scanRange opts =
     (case (parseInt (s_start opts), parseInt (s_end opts)) of
        (Num start, Num stop) \<Rightarrow>
          (if start < 0 \<or> stop < start then Inl (Exited 1 ''Invalid range. Use --start N --end M with 0 <= N <= M'')
           else Inr (start, stop))
      | _ \<Rightarrow> Inl (Exited 1 ''Invalid range. Use --start N --end M with 0 <= N <= M''))"

definition validAlgos :: "string set" where
  "validAlgos = {''ed25519'', ''secp256k1'', ''secp256r1''}"

text \<open>The algorithms to scan: the \<open>--algos\<close> list, or the default algorithm.\<close>

definition parseAlgos :: "('a, 'c) Lib \<Rightarrow> ScanOpts \<Rightarrow> string \<Rightarrow> string list" where
  "parseAlgos L opts defaultAlgo =
     (if s_algos opts \<noteq> []
      then filter (\<lambda>a. a \<noteq> [])
             (map (\<lambda>a. toLowerCase L (trim a)) (splitComma (s_algos opts)))
      else [defaultAlgo])"

definition scanAlgos :: "('a, 'c) Lib \<Rightarrow> ScanOpts \<Rightarrow> string \<Rightarrow> exit + string list" where
  "scanAlgos L opts defaultAlgo =
     (let algos = parseAlgos L opts defaultAlgo
      in case find (\<lambda>a. a \<notin> validAlgos) algos of
           Some a \<Rightarrow> Inl (Exited 1 (''Invalid algo: '' @ a @ ''. Use ed25519,secp256k1,secp256r1''))
         | None \<Rightarrow> Inr algos)"

definition balanceCount :: "balances \<Rightarrow> nat" where
  "balanceCount b = (case b of AsArray es \<Rightarrow> length es | AsObject kvs \<Rightarrow> length kvs)"

definition scanStep ::
  "('a, 'c) Lib \<Rightarrow> 'c \<Rightarrow> string \<Rightarrow> bool \<Rightarrow> string \<Rightarrow> 'a Scan \<Rightarrow> int \<Rightarrow> 'a Scan" where
  "scanStep L client seedHex verbose alg sc i =
     (case accountFromWallet L (testWallet seedHex i alg) of
        Inl e \<Rightarrow> sc\<lparr>failed := failed sc @ [(alg, i)]\<rparr>
      | Inr acct \<Rightarrow>
          (let sc1 = sc\<lparr>queried := queried sc @ [acct]\<rparr>
           in case getAccountInfo L client acct of
                Inl e \<Rightarrow> sc1\<lparr>failed := failed sc1 @ [(alg, i)]\<rparr>
              | Inr info \<Rightarrow>
                  (let b = (case info of None \<Rightarrow> AsObject [] | Some b \<Rightarrow> b)
                   in if balanceCount b > 0 \<or> verbose
                      then sc1\<lparr>found := found sc1 @ [(alg, i, publicKeyString L acct, b)]\<rparr>
                      else sc1)))"

definition scanLoop ::
  "('a, 'c) Lib \<Rightarrow> 'c \<Rightarrow> string \<Rightarrow> bool \<Rightarrow> string list \<Rightarrow> int \<Rightarrow> int \<Rightarrow> 'a Scan" where
  "scanLoop L client seedHex verbose algos start stop =
     foldl (\<lambda>sc alg. foldl (scanStep L client seedHex verbose alg) sc [start .. stop])
       noScan algos"

definition scanBalances :: "('a, 'c) Lib \<Rightarrow> ScanOpts \<Rightarrow> FS \<Rightarrow> exit \<times> 'a Scan" where
  "scanBalances L opts fs =
     (case scanSeed L opts fs of
        Inl x \<Rightarrow> (x, noScan)
      | Inr (seedHex, defaultAlgo) \<Rightarrow>
          (case scanRange opts of
             Inl x \<Rightarrow> (x, noScan)
           | Inr (start, stop) \<Rightarrow>
               (case scanAlgos L opts defaultAlgo of
                  Inl x \<Rightarrow> (x, noScan)
                | Inr algos \<Rightarrow>
                    (case readOnlyClientFrom L (s_network opts) of
                       Inl e \<Rightarrow> (Threw e, noScan)
                     | Inr client \<Rightarrow>
                         (Returned,
                          scanLoop L client seedHex (s_verbose opts) algos start stop)))))"

section \<open>Observations on the search\<close>

text \<open>
  The pairs in the order of the two loops, and what the probe of a pair contributes to
  the comparison: its total and its wallet when it printed a candidate, nothing
  otherwise.
\<close>

definition searchOrder :: "(string \<times> int) list" where
  "searchOrder = concat (map (\<lambda>a. map (\<lambda>i. (a, i)) indices) algorithms)"

definition pairTotal :: "('a, 'c) Lib \<Rightarrow> string \<Rightarrow> string \<Rightarrow> string \<times> int \<Rightarrow> int option" where
  "pairTotal L mnemonic network p =
     (case probe L mnemonic network (fst p) (snd p) of
        Found w addr n t \<Rightarrow> Some t
      | _ \<Rightarrow> None)"

definition pairWallet :: "('a, 'c) Lib \<Rightarrow> string \<Rightarrow> string \<Rightarrow> string \<times> int \<Rightarrow> Wallet option" where
  "pairWallet L mnemonic network p =
     (case probe L mnemonic network (fst p) (snd p) of
        Found w addr n t \<Rightarrow> Some w
      | _ \<Rightarrow> None)"

text \<open>
  The same observation made on the library alone, without the loop: the balances the
  network answers for the account of a pair, and their sum when there is at least one
  token; nothing when a derivation step or the query throws.
\<close>

definition held :: "tokenInfo \<Rightarrow> int" where
  "held e = (case snd e of None \<Rightarrow> 0 | Some n \<Rightarrow> n)"

definition pairBalances ::
  "('a, 'c) Lib \<Rightarrow> string \<Rightarrow> string \<Rightarrow> string \<times> int \<Rightarrow> tokenInfo list option" where
  "pairBalances L mnemonic network p =
     (case seedFromPassphrase L mnemonic of
        Inl e \<Rightarrow> None
      | Inr sd \<Rightarrow>
          (case accountFromWallet L (testWallet sd (snd p) (fst p)) of
             Inl e \<Rightarrow> None
           | Inr acct \<Rightarrow>
               (case fromNetwork L network (Some acct) of
                  Inl e \<Rightarrow> None
                | Inr client \<Rightarrow>
                    (case allBalances L client of Inl e \<Rightarrow> None | Inr bs \<Rightarrow> Some bs))))"

definition pairSum :: "('a, 'c) Lib \<Rightarrow> string \<Rightarrow> string \<Rightarrow> string \<times> int \<Rightarrow> int option" where
  "pairSum L mnemonic network p =
     (case pairBalances L mnemonic network p of
        None \<Rightarrow> None
      | Some bs \<Rightarrow> (if bs = [] then None else Some (sum_list (map held bs))))"

definition stepPair :: "('a, 'c) Lib \<Rightarrow> string \<Rightarrow> string \<Rightarrow> Search \<Rightarrow> string \<times> int \<Rightarrow> Search" where
  "stepPair L mnemonic network st p = autoDetectStep L mnemonic network (fst p) st (snd p)"

definition initSearch :: Search where
  "initSearch = \<lparr>foundWallet = None, maxBalance = 0, foundAddress = [], trace = []\<rparr>"

section \<open>A sample library and sample networks\<close>

text \<open>
  A stand-in for the client library, to run the commands on concrete inputs: an
  account is the data it was derived from, a client is the account it is bound to,
  and the network is a table from accounts to answers. It accepts a seed of 32 bytes
  in hexadecimal with an index that is not negative, a secp256k1 private key of 32
  bytes in hexadecimal between 1 and the order of the curve, and one phrase of 24
  words; it rejects everything else.
\<close>

datatype account = SeedAccount string int AccountKeyAlgorithm | KeyAccount string

definition sampleMnemonic :: string where
  "sampleMnemonic =
     ''legal winner thank year wave sausage worth useful legal winner thank year wave sausage worth useful legal winner thank year wave sausage worth title''"

definition sampleSeed :: string where
  "sampleSeed = ''7f7f7f7f7f7f7f7f7f7f7f7f7f7f7f7f7f7f7f7f7f7f7f7f7f7f7f7f7f7f7f7f''"

definition sampleKey :: string where
  "sampleKey = ''4c0883a69102937d6231471b5dbb6204fe5129617082792ae468d01a3f362318''"

definition isHex32 :: "string \<Rightarrow> bool" where
  "isHex32 s = (length s = 64 \<and> length (takeDigits 16 s) = 64)"

definition hexValue :: "string \<Rightarrow> nat" where
  "hexValue s = foldl (\<lambda>a d. a * 16 + d) 0 (takeDigits 16 s)"

definition secp256k1Order :: nat where
  "secp256k1Order =
     115792089237316195423570985008687907852837564279074904382605163141518161494337"

definition sampleFromSeed :: "string option \<Rightarrow> number \<Rightarrow> AccountKeyAlgorithm \<Rightarrow> error + account" where
  "sampleFromSeed sd n a =
     (case (sd, n) of
        (Some s, Num i) \<Rightarrow>
          (if isHex32 s \<and> 0 \<le> i then Inr (SeedAccount s i a)
           else Inl (LibraryError ''invalid seed''))
      | _ \<Rightarrow> Inl (LibraryError ''invalid seed''))"

definition sampleFromKey :: "string \<Rightarrow> error + account" where
  "sampleFromKey k =
     (if isHex32 k \<and> 0 < hexValue k \<and> hexValue k < secp256k1Order then Inr (KeyAccount k)
      else Inl (LibraryError ''invalid key''))"

definition samplePublicKey :: "account \<Rightarrow> string" where
  "samplePublicKey acct =
     (case acct of
        SeedAccount s i a \<Rightarrow>
          ''keeta_'' @ (case a of ED25519 \<Rightarrow> ''e'' | ECDSA_SECP256K1 \<Rightarrow> ''k'' | ECDSA_SECP256R1 \<Rightarrow> ''r'')
            @ [''0123456789'' ! nat (i mod 10)] @ s
      | KeyAccount k \<Rightarrow> ''keeta_p'' @ k)"

definition sampleLib ::
  "(account \<Rightarrow> error + tokenInfo list) \<Rightarrow> (account \<Rightarrow> error + balances option)
     \<Rightarrow> (account, account option) Lib" where
  "sampleLib bal info =
     \<lparr>homedir = ''/home/user'',
      fromSeed = sampleFromSeed,
      fromECDSASECP256K1PrivateKey = sampleFromKey,
      publicKeyString = samplePublicKey,
      seedFromPassphrase =
        (\<lambda>m. if m = sampleMnemonic then Inr sampleSeed
             else Inl (LibraryError ''invalid mnemonic'')),
      fromNetwork = (\<lambda>net acct. Inr acct),
      allBalances = (\<lambda>c. case c of None \<Rightarrow> Inl (LibraryError ''no account'') | Some a \<Rightarrow> bal a),
      readOnlyClientFrom = (\<lambda>net. Inr None),
      getAccountInfo = (\<lambda>c a. info a),
      toLowerCase = asciiLowerCase\<rparr>"

definition noInfo :: "account \<Rightarrow> error + balances option" where
  "noInfo a = Inl (LibraryError ''unreachable'')"

text \<open>A network on which no account holds anything.\<close>

definition emptyNet :: "account \<Rightarrow> error + tokenInfo list" where
  "emptyNet a = Inr []"

text \<open>
  A network on which ed25519 index 2 and secp256k1 index 0 both hold a total of 100,
  the first in two tokens of 60 and 40, ed25519 index 0 holds 70 and ed25519 index 4
  holds 7.
\<close>

definition tieNet :: "account \<Rightarrow> error + tokenInfo list" where
  "tieNet a =
     (case a of
        SeedAccount s i alg \<Rightarrow>
          (if alg = ED25519 \<and> i = 2 then Inr [(''tokenA'', Some 60), (''tokenB'', Some 40)]
           else if alg = ECDSA_SECP256K1 \<and> i = 0 then Inr [(''tokenA'', Some 100)]
           else if alg = ED25519 \<and> i = 0 then Inr [(''tokenA'', Some 70)]
           else if alg = ED25519 \<and> i = 4 then Inr [(''tokenA'', Some 7)]
           else Inr [])
      | KeyAccount k \<Rightarrow> Inr [])"

text \<open>
  A network that fails on ed25519 indices 0 and 1, answers a positive balance on
  ed25519 index 2 and a token of balance zero on index 3, and nothing elsewhere.
\<close>

definition flakyNet :: "account \<Rightarrow> error + tokenInfo list" where
  "flakyNet a =
     (case a of
        SeedAccount s i alg \<Rightarrow>
          (if alg = ED25519 \<and> (i = 0 \<or> i = 1) then Inl (LibraryError ''timeout'')
           else if alg = ED25519 \<and> i = 2 then Inr [(''tokenA'', Some 5)]
           else if alg = ED25519 \<and> i = 3 then Inr [(''tokenA'', Some 0)]
           else Inr [])
      | KeyAccount k \<Rightarrow> Inr [])"

text \<open>
  A network that answers no token on ed25519 index 0, fails on ed25519 index 1,
  answers a balance of 5 on ed25519 index 2, a balance of 3 on secp256k1 index 1,
  fails on secp256k1 index 3 and on every secp256r1 index, and answers no token
  elsewhere.
\<close>

definition patchyNet :: "account \<Rightarrow> error + tokenInfo list" where
  "patchyNet a =
     (case a of
        SeedAccount s i alg \<Rightarrow>
          (if alg = ED25519 \<and> i = 1 then Inl (LibraryError ''timeout'')
           else if alg = ED25519 \<and> i = 2 then Inr [(''tokenA'', Some 5)]
           else if alg = ECDSA_SECP256K1 \<and> i = 1 then Inr [(''tokenA'', Some 3)]
           else if alg = ECDSA_SECP256K1 \<and> i = 3 then Inl (LibraryError ''timeout'')
           else if alg = ECDSA_SECP256R1 then Inl (LibraryError ''unreachable'')
           else Inr [])
      | KeyAccount k \<Rightarrow> Inr [])"

text \<open>A network on which every account holds one token of balance zero.\<close>

definition zeroNet :: "account \<Rightarrow> error + tokenInfo list" where
  "zeroNet a = Inr [(''tokenA'', Some 0)]"

definition emptyFS :: FS where
  "emptyFS = \<lparr>files = (\<lambda>p. None), dirs = {''/home/user''}, denied = {}, journal = []\<rparr>"

definition autoDetectOpts :: ImportOpts where
  "autoDetectOpts =
     \<lparr>o_seed = None, o_priv = None, o_mnemonic = Some sampleMnemonic, o_algo = ''ed25519'',
      o_index = ''0'', o_autoDetect = True, o_network = ''test'',
      o_keyfile = keyfileOption None\<rparr>"

text \<open>
  A file system whose only wallet is at \<open>/tmp/w.json\<close>, and a scan of the stored
  wallet that names that file as \<open>--keyfile\<close>.
\<close>

definition keyfileFS :: FS where
  "keyfileFS =
     \<lparr>files = (\<lambda>p. if p = ''/tmp/w.json''
                     then Some (JSON_stringify (testWallet sampleSeed 0 ''ed25519''))
                     else None),
      dirs = {''/tmp'', ''/home/user''}, denied = {}, journal = []\<rparr>"

definition keyfileScan :: ScanOpts where
  "keyfileScan =
     \<lparr>s_mnemonic = None, s_algos = [], s_start = ''0'', s_end = ''10'', s_network = ''test'',
      s_verbose = False, s_keyfile = keyfileOption (Some ''/tmp/w.json'')\<rparr>"

text \<open>
  A file system with a seed wallet at the default path, and a scan of that stored
  wallet whose \<open>--algos\<close> list has no entry.
\<close>

definition storedFS :: FS where
  "storedFS =
     \<lparr>files = (\<lambda>p. if p = ''/home/user/.keeta/wallet.json''
                     then Some (JSON_stringify (testWallet sampleSeed 0 ''ed25519''))
                     else None),
      dirs = {''/home/user'', ''/home/user/.keeta''}, denied = {}, journal = []\<rparr>"

definition commaScan :: ScanOpts where
  "commaScan =
     \<lparr>s_mnemonic = None, s_algos = '','', s_start = ''0'', s_end = ''10'',
      s_network = ''test'', s_verbose = False, s_keyfile = keyfileOption None\<rparr>"

section \<open>The invariant of the search loop\<close>

text \<open>
  After the pairs \<open>ps\<close>: the maximum is not negative and bounds every total seen;
  with no wallet found it is zero; a found wallet belongs to a pair whose total is the
  maximum, is positive, and exceeds every total seen before it.
\<close>

definition searchInv ::
  "('a, 'c) Lib \<Rightarrow> string \<Rightarrow> string \<Rightarrow> (string \<times> int) list \<Rightarrow> Search \<Rightarrow> bool" where
  "searchInv L m net ps st =
     (0 \<le> maxBalance st
    \<and> (\<forall>j < length ps. \<forall>t. pairTotal L m net (ps ! j) = Some t \<longrightarrow> t \<le> maxBalance st)
    \<and> (foundWallet st = None \<longrightarrow> maxBalance st = 0)
    \<and> (\<forall>w. foundWallet st = Some w \<longrightarrow>
         (\<exists>k < length ps.
            pairWallet L m net (ps ! k) = Some w
          \<and> pairTotal L m net (ps ! k) = Some (maxBalance st)
          \<and> 0 < maxBalance st
          \<and> (\<forall>j < k. \<forall>t. pairTotal L m net (ps ! j) = Some t \<longrightarrow> t < maxBalance st))))"

section \<open>Lemmas on the resolver and the keystore\<close>

lemma accountFromWallet_key:
  "privateKeySecp256k1 w = Some k \<Longrightarrow> k \<noteq> [] \<Longrightarrow>
     accountFromWallet L w = fromECDSASECP256K1PrivateKey L k"
  by (simp add: accountFromWallet_def truthy_def)

lemma asWallet_stringify:
  assumes "index w \<noteq> Some NaN"
  shows "JSON_stringify w = Parses j \<Longrightarrow> asWallet j = Inr (Some w)"
  using assms
  by (cases w; cases "seed w"; cases "index w"; cases "algo w"; cases "privateKeySecp256k1 w";
      cases "address w")
     (auto simp: JSON_stringify_def asWallet_def property_def stringField_def numberField_def
        numberJson_def split: number.splits)

lemma saveWallet_succeeds:
  assumes "orElse P (defaultKeyfile L) \<notin> denied fs" and "orElse P (defaultKeyfile L) \<notin> dirs fs"
    and "dirname (orElse P (defaultKeyfile L)) \<notin> denied fs"
    and "files fs (dirname (orElse P (defaultKeyfile L))) = None"
    and "dirname (orElse P (defaultKeyfile L)) \<noteq> orElse P (defaultKeyfile L)"
  shows "fst (saveWallet L R P fs) = None"
  using assms
  by (auto simp: saveWallet_def Let_def ensureDir_def mkdirSync_def writeFileSync_def
      existsSync_def)

lemma totalBalance_sum: "totalBalance bs = sum_list (map held bs)"
proof -
  have "foldl (\<lambda>tot (tokenId, b). tot + (case b of None \<Rightarrow> 0 | Some n \<Rightarrow> n)) a bs
          = a + sum_list (map held bs)" for a
    by (induction bs arbitrary: a) (auto simp: held_def)
  from this [of 0] show ?thesis by (simp add: totalBalance_def)
qed

section \<open>Lemmas on the search loop\<close>

lemma autoDetect_flat:
  "autoDetect L m net = foldl (stepPair L m net) initSearch searchOrder"
  by (simp add: autoDetect_def searchOrder_def algorithms_def indices_def stepPair_def
      initSearch_def)

lemma searchOrder_eq:
  "searchOrder =
     [(''ed25519'', 0), (''ed25519'', 1), (''ed25519'', 2), (''ed25519'', 3), (''ed25519'', 4),
      (''ed25519'', 5), (''secp256k1'', 0), (''secp256k1'', 1), (''secp256k1'', 2),
      (''secp256k1'', 3), (''secp256k1'', 4), (''secp256k1'', 5), (''secp256r1'', 0),
      (''secp256r1'', 1), (''secp256r1'', 2), (''secp256r1'', 3), (''secp256r1'', 4),
      (''secp256r1'', 5)]"
  by (simp add: searchOrder_def algorithms_def indices_def)

lemma trace_stepPair:
  "trace (stepPair L m net st p) = trace st @ [(fst p, snd p, probe L m net (fst p) (snd p))]"
  by (simp add: stepPair_def autoDetectStep_def Let_def split: probeStatus.splits)

lemma trace_foldl:
  "trace (foldl (stepPair L m net) st ps)
     = trace st @ map (\<lambda>p. (fst p, snd p, probe L m net (fst p) (snd p))) ps"
  by (induction ps arbitrary: st) (simp_all add: trace_stepPair)

lemma stepPair_cases:
  "(pairTotal L m net p = None \<and> foundWallet (stepPair L m net st p) = foundWallet st
      \<and> maxBalance (stepPair L m net st p) = maxBalance st)
   \<or> (\<exists>t w. pairTotal L m net p = Some t \<and> pairWallet L m net p = Some w \<and>
        (if t > maxBalance st
         then foundWallet (stepPair L m net st p) = Some w \<and> maxBalance (stepPair L m net st p) = t
         else foundWallet (stepPair L m net st p) = foundWallet st
            \<and> maxBalance (stepPair L m net st p) = maxBalance st))"
  by (cases "probe L m net (fst p) (snd p)")
     (simp_all add: stepPair_def autoDetectStep_def Let_def pairTotal_def pairWallet_def)

lemma searchInv_step:
  assumes inv: "searchInv L m net ps st"
  shows "searchInv L m net (ps @ [p]) (stepPair L m net st p)"
proof -
  let ?st' = "stepPair L m net st p"
  let ?T = "pairTotal L m net"
  let ?W = "pairWallet L m net"
  let ?qs = "ps @ [p]"
  have old: "?qs ! j = ps ! j" if "j < length ps" for j
    using that by (simp add: nth_append)
  have new: "?qs ! length ps = p"
    by simp
  have split: "j < length ps \<or> j = length ps" if "j < length ?qs" for j
    using that by auto
  from inv have nonneg: "0 \<le> maxBalance st"
    and below: "\<And>j t. j < length ps \<Longrightarrow> ?T (ps ! j) = Some t \<Longrightarrow> t \<le> maxBalance st"
    and none: "foundWallet st = None \<Longrightarrow> maxBalance st = 0"
    and some: "\<And>w. foundWallet st = Some w \<Longrightarrow>
         \<exists>k < length ps. ?W (ps ! k) = Some w \<and> ?T (ps ! k) = Some (maxBalance st)
           \<and> 0 < maxBalance st \<and> (\<forall>j < k. \<forall>t. ?T (ps ! j) = Some t \<longrightarrow> t < maxBalance st)"
    unfolding searchInv_def by blast+
  have some': "\<exists>k < length ?qs. ?W (?qs ! k) = Some w \<and> ?T (?qs ! k) = Some (maxBalance st)
           \<and> 0 < maxBalance st \<and> (\<forall>j < k. \<forall>t. ?T (?qs ! j) = Some t \<longrightarrow> t < maxBalance st)"
    if "foundWallet st = Some w" for w
  proof -
    from some [OF that] obtain k where k: "k < length ps" "?W (ps ! k) = Some w"
      "?T (ps ! k) = Some (maxBalance st)" "0 < maxBalance st"
      "\<forall>j < k. \<forall>t. ?T (ps ! j) = Some t \<longrightarrow> t < maxBalance st"
      by blast
    have "\<forall>j < k. \<forall>t. ?T (?qs ! j) = Some t \<longrightarrow> t < maxBalance st"
    proof (intro allI impI)
      fix j t assume "j < k" "?T (?qs ! j) = Some t"
      with k(1) old [of j] have "?T (ps ! j) = Some t" by simp
      with k(5) \<open>j < k\<close> show "t < maxBalance st" by blast
    qed
    moreover have "k < length ?qs" using k(1) by simp
    moreover have "?W (?qs ! k) = Some w" "?T (?qs ! k) = Some (maxBalance st)"
      using k(1,2,3) old [of k] by simp_all
    ultimately show ?thesis using k(4) by blast
  qed
  consider
      (skip) "?T p = None" "foundWallet ?st' = foundWallet st" "maxBalance ?st' = maxBalance st"
    | (keep) t where "?T p = Some t" "t \<le> maxBalance st"
        "foundWallet ?st' = foundWallet st" "maxBalance ?st' = maxBalance st"
    | (take) t w where "?T p = Some t" "?W p = Some w" "maxBalance st < t"
        "foundWallet ?st' = Some w" "maxBalance ?st' = t"
  proof -
    from stepPair_cases [of L m net p st]
    show ?thesis
    proof (elim disjE exE conjE)
      assume "?T p = None" "foundWallet ?st' = foundWallet st" "maxBalance ?st' = maxBalance st"
      then show ?thesis by (rule that(1))
    next
      fix t w
      assume a: "?T p = Some t" "?W p = Some w"
        and b: "if maxBalance st < t
                then foundWallet ?st' = Some w \<and> maxBalance ?st' = t
                else foundWallet ?st' = foundWallet st \<and> maxBalance ?st' = maxBalance st"
      show ?thesis
      proof (cases "maxBalance st < t")
        case True
        with b have "foundWallet ?st' = Some w" "maxBalance ?st' = t" by simp_all
        with a True show ?thesis by (rule that(3))
      next
        case False
        with b have "foundWallet ?st' = foundWallet st" "maxBalance ?st' = maxBalance st"
          by simp_all
        moreover from False have "t \<le> maxBalance st" by simp
        ultimately show ?thesis using a(1) by (intro that(2))
      qed
    qed
  qed
  then show ?thesis
  proof cases
    case skip
    have b: "\<forall>j < length ?qs. \<forall>t. ?T (?qs ! j) = Some t \<longrightarrow> t \<le> maxBalance st"
    proof (intro allI impI)
      fix j t assume j: "j < length ?qs" and t: "?T (?qs ! j) = Some t"
      from split [OF j] show "t \<le> maxBalance st"
      proof
        assume "j < length ps"
        with t old [of j] below [of j t] show ?thesis by simp
      next
        assume "j = length ps"
        with t new skip(1) show ?thesis by simp
      qed
    qed
    show ?thesis
      unfolding searchInv_def skip(2,3)
      using nonneg b none some' by blast
  next
    case keep
    have b: "\<forall>j < length ?qs. \<forall>t'. ?T (?qs ! j) = Some t' \<longrightarrow> t' \<le> maxBalance st"
    proof (intro allI impI)
      fix j t' assume j: "j < length ?qs" and t: "?T (?qs ! j) = Some t'"
      from split [OF j] show "t' \<le> maxBalance st"
      proof
        assume "j < length ps"
        with t old [of j] below [of j t'] show ?thesis by simp
      next
        assume "j = length ps"
        with t new keep(1,2) show ?thesis by simp
      qed
    qed
    show ?thesis
      unfolding searchInv_def keep(3,4)
      using nonneg b none some' by blast
  next
    case take
    have pos: "0 < t" using take(3) nonneg by simp
    have b: "\<forall>j < length ?qs. \<forall>t'. ?T (?qs ! j) = Some t' \<longrightarrow> t' \<le> t"
    proof (intro allI impI)
      fix j t' assume j: "j < length ?qs" and t: "?T (?qs ! j) = Some t'"
      from split [OF j] show "t' \<le> t"
      proof
        assume "j < length ps"
        with t old [of j] below [of j t'] take(3) show ?thesis by simp
      next
        assume "j = length ps"
        with t new take(1) show ?thesis by simp
      qed
    qed
    have c: "\<forall>j < length ps. \<forall>t'. ?T (?qs ! j) = Some t' \<longrightarrow> t' < t"
    proof (intro allI impI)
      fix j t' assume j: "j < length ps" and t: "?T (?qs ! j) = Some t'"
      with old [of j] below [of j t'] take(3) show "t' < t" by simp
    qed
    have d: "\<exists>k < length ?qs. ?W (?qs ! k) = Some w \<and> ?T (?qs ! k) = Some t \<and> 0 < t
               \<and> (\<forall>j < k. \<forall>t'. ?T (?qs ! j) = Some t' \<longrightarrow> t' < t)"
    proof (intro exI [of _ "length ps"] conjI)
      show "length ps < length ?qs" by simp
      show "?W (?qs ! length ps) = Some w" using take(2) new by simp
      show "?T (?qs ! length ps) = Some t" using take(1) new by simp
      show "0 < t" by (rule pos)
      show "\<forall>j < length ps. \<forall>t'. ?T (?qs ! j) = Some t' \<longrightarrow> t' < t" by (rule c)
    qed
    show ?thesis
      unfolding searchInv_def take(4,5)
      using pos b d by simp
  qed
qed

lemma searchInv_init: "searchInv L m net [] initSearch"
  by (simp add: searchInv_def initSearch_def)

lemma searchInv_foldl:
  "searchInv L m net ps (foldl (stepPair L m net) initSearch ps)"
  by (induction ps rule: rev_induct) (simp_all add: searchInv_init searchInv_step)

lemma search_selects:
  assumes "foundWallet (foldl (stepPair L m net) initSearch ps) = Some w"
  shows "\<exists>k < length ps.
            pairWallet L m net (ps ! k) = Some w
          \<and> pairTotal L m net (ps ! k) = Some (maxBalance (foldl (stepPair L m net) initSearch ps))
          \<and> 0 < maxBalance (foldl (stepPair L m net) initSearch ps)
          \<and> (\<forall>j < length ps. \<forall>t. pairTotal L m net (ps ! j) = Some t
                 \<longrightarrow> t \<le> maxBalance (foldl (stepPair L m net) initSearch ps))
          \<and> (\<forall>j < k. \<forall>t. pairTotal L m net (ps ! j) = Some t
                 \<longrightarrow> t < maxBalance (foldl (stepPair L m net) initSearch ps))"
  using searchInv_foldl [of L m net ps] assms unfolding searchInv_def by blast

lemma search_none:
  assumes "\<forall>j < length ps. \<forall>t. pairTotal L m net (ps ! j) = Some t \<longrightarrow> t \<le> 0"
  shows "foundWallet (foldl (stepPair L m net) initSearch ps) = None"
proof (cases "foundWallet (foldl (stepPair L m net) initSearch ps)")
  case None then show ?thesis .
next
  case (Some w)
  from search_selects [OF Some] assms show ?thesis by fastforce
qed

lemma search_some:
  assumes "k < length ps" and "pairTotal L m net (ps ! k) = Some t" and "0 < t"
  shows "foundWallet (foldl (stepPair L m net) initSearch ps) \<noteq> None"
  using searchInv_foldl [of L m net ps] assms unfolding searchInv_def by fastforce

lemma search_first_greatest:
  assumes k: "k < length ps" and t: "pairTotal L m net (ps ! k) = Some t" and pos: "0 < t"
    and before: "\<forall>j < k. \<forall>t'. pairTotal L m net (ps ! j) = Some t' \<longrightarrow> t' < t"
    and all: "\<forall>j < length ps. \<forall>t'. pairTotal L m net (ps ! j) = Some t' \<longrightarrow> t' \<le> t"
  shows "foundWallet (foldl (stepPair L m net) initSearch ps) = pairWallet L m net (ps ! k)
       \<and> maxBalance (foldl (stepPair L m net) initSearch ps) = t"
proof -
  let ?st = "foldl (stepPair L m net) initSearch ps"
  from search_some [OF k t pos] obtain w where w: "foundWallet ?st = Some w" by auto
  from search_selects [OF w] obtain k' where k': "k' < length ps"
    "pairWallet L m net (ps ! k') = Some w" "pairTotal L m net (ps ! k') = Some (maxBalance ?st)"
    "\<forall>j < length ps. \<forall>t. pairTotal L m net (ps ! j) = Some t \<longrightarrow> t \<le> maxBalance ?st"
    "\<forall>j < k'. \<forall>t. pairTotal L m net (ps ! j) = Some t \<longrightarrow> t < maxBalance ?st"
    by blast
  have eq: "maxBalance ?st = t"
    using k'(1,3,4) k t all by (meson order_antisym)
  have "\<not> k' < k" using before k'(3) eq by auto
  moreover have "\<not> k < k'" using k'(5) t eq by auto
  ultimately have "k' = k" by simp
  with k'(2) w eq show ?thesis by simp
qed

lemma pairWallet_fields:
  assumes "pairWallet L m net p = Some w"
  shows "algo w = Some (fst p) \<and> index w = Some (Num (snd p))
       \<and> seedFromPassphrase L m = Inr (case seed w of Some s \<Rightarrow> s | None \<Rightarrow> [])
       \<and> privateKeySecp256k1 w = None"
  using assms
  by (auto simp: pairWallet_def probe_def testWallet_def
      split: sum.splits if_splits probeStatus.splits)

lemma nth_all_take:
  assumes "\<forall>p \<in> set (take k ps). P p" and "k \<le> length ps"
  shows "\<forall>j < k. P (ps ! j)"
proof (intro allI impI)
  fix j assume j: "j < k"
  with assms(2) have "take k ps ! j = ps ! j" "j < length (take k ps)" by simp_all
  with assms(1) show "P (ps ! j)" by (metis nth_mem)
qed

lemma nth_all_set:
  assumes "\<forall>p \<in> set ps. P p"
  shows "\<forall>j < length ps. P (ps ! j)"
  using assms by simp

lemma pairTotal_pairWallet:
  "pairTotal L m net p = Some t \<Longrightarrow> \<exists>w. pairWallet L m net p = Some w"
  by (simp add: pairTotal_def pairWallet_def split: probeStatus.splits)

lemma autoDetect_none:
  assumes "\<forall>p \<in> set searchOrder. \<forall>t. pairTotal L m net p = Some t \<longrightarrow> t \<le> 0"
  shows "foundWallet (autoDetect L m net) = None"
proof -
  from assms
  have "\<forall>j < length searchOrder. \<forall>t. pairTotal L m net (searchOrder ! j) = Some t \<longrightarrow> t \<le> 0"
    by (rule nth_all_set)
  then show ?thesis
    unfolding autoDetect_flat by (rule search_none)
qed

lemma pairTotal_pairSum: "pairTotal L m net p = pairSum L m net p"
  by (simp add: pairTotal_def pairSum_def pairBalances_def probe_def clientFrom_def
      totalBalance_sum split: sum.splits)

lemma pairWallet_testWallet:
  assumes "pairWallet L m net p = Some w"
  shows "\<exists>sd. seedFromPassphrase L m = Inr sd \<and> w = testWallet sd (snd p) (fst p)"
  using assms
  by (auto simp: pairWallet_def probe_def split: sum.splits if_splits)

lemma autoDetect_trace:
  "trace (autoDetect L m net)
     = map (\<lambda>p. (fst p, snd p, probe L m net (fst p) (snd p))) searchOrder"
  by (simp add: autoDetect_flat trace_foldl initSearch_def)

lemma autoDetect_found_iff:
  "(\<exists>w. foundWallet (autoDetect L m net) = Some w)
     \<longleftrightarrow> (\<exists>p \<in> set searchOrder. \<exists>t. pairTotal L m net p = Some t \<and> 0 < t)"
proof
  assume "\<exists>w. foundWallet (autoDetect L m net) = Some w"
  then obtain w where "foundWallet (foldl (stepPair L m net) initSearch searchOrder) = Some w"
    by (auto simp: autoDetect_flat)
  from search_selects [OF this] obtain k where "k < length searchOrder"
    "pairTotal L m net (searchOrder ! k)
       = Some (maxBalance (foldl (stepPair L m net) initSearch searchOrder))"
    "0 < maxBalance (foldl (stepPair L m net) initSearch searchOrder)"
    by blast
  then show "\<exists>p \<in> set searchOrder. \<exists>t. pairTotal L m net p = Some t \<and> 0 < t"
    by (meson nth_mem)
next
  assume "\<exists>p \<in> set searchOrder. \<exists>t. pairTotal L m net p = Some t \<and> 0 < t"
  then obtain k t where "k < length searchOrder" "pairTotal L m net (searchOrder ! k) = Some t"
    "0 < t"
    by (metis in_set_conv_nth)
  from search_some [OF this] show "\<exists>w. foundWallet (autoDetect L m net) = Some w"
    by (simp add: autoDetect_flat)
qed

section \<open>Lemmas on the samples and on the scan\<close>

lemma sample_words: "trim sampleMnemonic = sampleMnemonic" "length (words sampleMnemonic) = 24"
  by code_simp+

lemma sample_hex: "isHex32 sampleSeed" "isHex32 sampleKey"
  by (simp_all add: isHex32_def sampleSeed_def sampleKey_def digitOf_def)

lemma sample_key: "sampleFromKey sampleKey = Inr (KeyAccount sampleKey)"
proof -
  have "0 < hexValue sampleKey \<and> hexValue sampleKey < secp256k1Order"
    by (simp add: hexValue_def sampleKey_def digitOf_def secp256k1Order_def)
  with sample_hex(2) show ?thesis by (simp add: sampleFromKey_def)
qed

lemma sample_phrase: "seedFromPassphrase (sampleLib bal info) sampleMnemonic = Inr sampleSeed"
  by (simp add: sampleLib_def)

lemma sample_account:
  assumes "0 \<le> i" and "a \<noteq> []"
  shows "accountFromWallet (sampleLib bal info) (testWallet sampleSeed i a)
           = (case algoConst a of
                Inl e \<Rightarrow> Inl e
              | Inr k \<Rightarrow> Inr (SeedAccount sampleSeed i k))"
  using assms sample_hex(1)
  by (simp add: accountFromWallet_def testWallet_def truthy_def orElse_def orZero_def
      sampleLib_def sampleFromSeed_def split: sum.splits)

lemma sample_client:
  "fromNetwork (sampleLib bal info) net x = Inr x"
  "allBalances (sampleLib bal info) (Some acct) = bal acct"
  "publicKeyString (sampleLib bal info) = samplePublicKey"
  by (simp_all add: sampleLib_def)

lemma sample_probe:
  assumes "0 \<le> i" and "a \<noteq> []"
  shows "probe (sampleLib bal info) sampleMnemonic net a i
           = (case algoConst a of
                Inl e \<Rightarrow> DerivationError e
              | Inr k \<Rightarrow>
                  (case bal (SeedAccount sampleSeed i k) of
                     Inl e \<Rightarrow> NetworkError
                   | Inr bs \<Rightarrow>
                       (if bs = [] then NoBalance
                        else Found (testWallet sampleSeed i a)
                               (samplePublicKey (SeedAccount sampleSeed i k))
                               (length bs) (totalBalance bs))))"
proof (cases "algoConst a")
  case (Inl e)
  with sample_account [OF assms, of bal info] show ?thesis
    by (simp add: probe_def sample_phrase)
next
  case (Inr k)
  with sample_account [OF assms, of bal info]
  have "accountFromWallet (sampleLib bal info) (testWallet sampleSeed i a)
          = Inr (SeedAccount sampleSeed i k)"
    by simp
  with Inr show ?thesis
    by (cases "bal (SeedAccount sampleSeed i k)")
       (simp_all add: probe_def sample_phrase clientFrom_def sample_client)
qed

lemmas sampleEval = pairTotal_def pairWallet_def sample_probe algoConst_def totalBalance_def

lemma tie_search:
  "foundWallet (autoDetect (sampleLib tieNet noInfo) sampleMnemonic ''test'')
     = Some (testWallet sampleSeed 2 ''ed25519'')"
proof -
  let ?L = "sampleLib tieNet noInfo"
  let ?T = "pairTotal ?L sampleMnemonic ''test''"
  have k: "2 < length searchOrder" by (simp add: searchOrder_eq)
  have t: "?T (searchOrder ! 2) = Some 100" by (simp add: searchOrder_eq sampleEval tieNet_def)
  have w: "pairWallet ?L sampleMnemonic ''test'' (searchOrder ! 2)
             = Some (testWallet sampleSeed 2 ''ed25519'')"
    by (simp add: searchOrder_eq sampleEval tieNet_def)
  have "\<forall>p \<in> set (take 2 searchOrder). \<forall>t'. ?T p = Some t' \<longrightarrow> t' < 100"
    by (simp add: searchOrder_eq sampleEval tieNet_def)
  then have before: "\<forall>j < 2. \<forall>t'. ?T (searchOrder ! j) = Some t' \<longrightarrow> t' < 100"
    by (rule nth_all_take) (simp add: searchOrder_eq)
  have "\<forall>p \<in> set searchOrder. \<forall>t'. ?T p = Some t' \<longrightarrow> t' \<le> 100"
    by (simp add: searchOrder_eq sampleEval tieNet_def)
  then have all: "\<forall>j < length searchOrder. \<forall>t'. ?T (searchOrder ! j) = Some t' \<longrightarrow> t' \<le> 100"
    by (rule nth_all_set)
  have pos: "(0::int) < 100" by simp
  from search_first_greatest [OF k t pos before all] w show ?thesis
    by (simp add: autoDetect_flat)
qed

lemmas fsEval = saveWallet_def ensureDir_def mkdirSync_def writeFileSync_def existsSync_def
  dirname_def defaultKeyfile_def getKeyfile_def keyfileOption_def orElse_def emptyFS_def
  importSave_def

lemma getKeyfile_declared_default:
  "getKeyfile L (keyfileOption None) = ''~/.keeta/wallet.json''"
  by (simp add: getKeyfile_def keyfileOption_def orElse_def)

lemma scanLoop_no_algos: "scanLoop L client seedHex verbose [] start stop = noScan"
  by (simp add: scanLoop_def)

lemma scanBalances_keyfile_unused:
  "scanBalances L (opts\<lparr>s_keyfile := k\<rparr>) fs = scanBalances L opts fs"
proof -
  have a: "scanSeed L (opts\<lparr>s_keyfile := k\<rparr>) fs = scanSeed L opts fs"
    by (simp add: scanSeed_def)
  have b: "scanRange (opts\<lparr>s_keyfile := k\<rparr>) = scanRange opts"
    by (simp add: scanRange_def)
  have c: "scanAlgos L (opts\<lparr>s_keyfile := k\<rparr>) d = scanAlgos L opts d" for d
    by (simp add: scanAlgos_def parseAlgos_def)
  show ?thesis
    by (simp add: scanBalances_def a b c cong: sum.case_cong prod.case_cong)
qed

lemma load_stored:
  assumes "files fs f = Some (JSON_stringify w)" and "index w \<noteq> Some NaN" and "f \<noteq> []"
  shows "loadWallet L (Some f) fs = Inr (Some w)"
proof -
  obtain j where j: "JSON_stringify w = Parses j" by (simp add: JSON_stringify_def)
  from asWallet_stringify [OF assms(2) j] assms(1,3) j show ?thesis
    by (simp add: loadWallet_def Let_def orElse_def existsSync_def readFileSync_def JSON_parse_def)
qed

lemma parseAlgos_empty:
  assumes "parseAlgos L opts d = []"
  shows "scanAlgos L opts d' = Inr []"
proof -
  from assms have "parseAlgos L opts d' = []"
    by (simp add: parseAlgos_def split: if_splits)
  then show ?thesis by (simp add: scanAlgos_def)
qed

lemma sample_sums:
  assumes "0 \<le> i" and "a \<noteq> []"
  shows "pairSum (sampleLib bal info) sampleMnemonic net (a, i)
           = (case algoConst a of
                Inl e \<Rightarrow> None
              | Inr k \<Rightarrow>
                  (case bal (SeedAccount sampleSeed i k) of
                     Inl e \<Rightarrow> None
                   | Inr bs \<Rightarrow> (if bs = [] then None else Some (sum_list (map held bs)))))"
  using sample_probe [OF assms, of bal info net]
  by (simp add: pairTotal_pairSum [symmetric] pairTotal_def totalBalance_sum
      split: sum.splits)

lemmas sumEval = sample_sums algoConst_def held_def

section \<open>The resolver\<close>

text \<open>
  C1. Two wallet records with the same \<open>seed\<close>, \<open>index\<close>, \<open>algo\<close> and
  \<open>privateKeySecp256k1\<close> resolve to the same result, whatever else they hold (the
  cached \<open>address\<close>): the same account with the same public key string, or the same
  error. The derivation primitives of the library are functions of their arguments.
\<close>

theorem accountFromWallet_deterministic:
  assumes "seed w1 = seed w2" and "index w1 = index w2" and "algo w1 = algo w2"
    and "privateKeySecp256k1 w1 = privateKeySecp256k1 w2"
  shows "accountFromWallet L w1 = accountFromWallet L w2
       \<and> map_sum id (publicKeyString L) (accountFromWallet L w1)
         = map_sum id (publicKeyString L) (accountFromWallet L w2)"
  unfolding accountFromWallet_def assms by simp

text \<open>Two records that differ in the cached address only, on the sample library.\<close>

theorem accountFromWallet_deterministic_witness:
  "accountFromWallet (sampleLib emptyNet noInfo)
       \<lparr>seed = Some sampleSeed, index = Some (Num 3), algo = Some ''secp256r1'',
        privateKeySecp256k1 = None, address = None\<rparr>
     = accountFromWallet (sampleLib emptyNet noInfo)
       \<lparr>seed = Some sampleSeed, index = Some (Num 3), algo = Some ''secp256r1'',
        privateKeySecp256k1 = None, address = Some ''keeta_cached''\<rparr>
   \<and> accountFromWallet (sampleLib emptyNet noInfo)
       \<lparr>seed = Some sampleSeed, index = Some (Num 3), algo = Some ''secp256r1'',
        privateKeySecp256k1 = None, address = Some ''keeta_cached''\<rparr>
     = Inr (SeedAccount sampleSeed 3 ECDSA_SECP256R1)"
proof -
  let ?L = "sampleLib emptyNet noInfo"
  let ?w1 = "\<lparr>seed = Some sampleSeed, index = Some (Num 3), algo = Some ''secp256r1'',
        privateKeySecp256k1 = None, address = None\<rparr>"
  let ?w2 = "\<lparr>seed = Some sampleSeed, index = Some (Num 3), algo = Some ''secp256r1'',
        privateKeySecp256k1 = None, address = Some ''keeta_cached''\<rparr>"
  have "accountFromWallet ?L ?w1 = Inr (SeedAccount sampleSeed 3 ECDSA_SECP256R1)"
    using sample_account [of 3 "''secp256r1''" emptyNet noInfo]
    by (simp add: testWallet_def algoConst_def)
  with accountFromWallet_deterministic [of ?w1 ?w2 ?L] show ?thesis by simp
qed

text \<open>
  C2, as amended. A record whose \<open>privateKeySecp256k1\<close> is present and not the empty
  string resolves to what the library's secp256k1 private-key transform returns on that
  key, whatever \<open>seed\<close>, \<open>index\<close> and \<open>algo\<close> it holds.
\<close>

theorem key_precedence:
  assumes "privateKeySecp256k1 w = Some k" and "k \<noteq> []"
  shows "accountFromWallet L (w\<lparr>seed := s, index := i, algo := a\<rparr>)
         = fromECDSASECP256K1PrivateKey L k"
  using assms by (simp add: accountFromWallet_key)

text \<open>A record with a key, a seed, an index and another algorithm.\<close>

theorem key_precedence_witness:
  "accountFromWallet (sampleLib emptyNet noInfo)
       \<lparr>seed = Some sampleSeed, index = Some (Num 1), algo = Some ''ed25519'',
        privateKeySecp256k1 = Some sampleKey, address = None\<rparr>
     = Inr (KeyAccount sampleKey)"
proof -
  have k: "sampleKey \<noteq> []" by (simp add: sampleKey_def)
  from key_precedence
    [where w = "\<lparr>seed = None, index = None, algo = None,
         privateKeySecp256k1 = Some sampleKey, address = None\<rparr>" and k = sampleKey
       and L = "sampleLib emptyNet noInfo" and s = "Some sampleSeed" and i = "Some (Num 1)"
       and a = "Some ''ed25519''"] k sample_key
  show ?thesis by (simp add: sampleLib_def)
qed

text \<open>
  With the empty string as the key, present beside a seed, the test
  \<open>if (wallet.privateKeySecp256k1)\<close> fails and the record resolves from its seed; the
  private-key transform would have rejected the key.
\<close>

theorem key_precedence_counterexample:
  "accountFromWallet (sampleLib emptyNet noInfo)
       \<lparr>seed = Some sampleSeed, index = None, algo = None,
        privateKeySecp256k1 = Some [], address = None\<rparr>
     = Inr (SeedAccount sampleSeed 0 ED25519)
   \<and> fromECDSASECP256K1PrivateKey (sampleLib emptyNet noInfo) []
     = Inl (LibraryError ''invalid key'')"
  using sample_hex(1)
  by (simp add: accountFromWallet_def truthy_def orElse_def orZero_def algoConst_def
      sampleLib_def sampleFromSeed_def sampleFromKey_def isHex32_def)

text \<open>
  C3, as amended. A record whose \<open>privateKeySecp256k1\<close> is present and not empty
  resolves to what the library's private-key transform returns on that key, so it fails
  exactly when that transform throws, with its error; the \<open>algo\<close> of the record is not
  looked at. The restriction to secp256k1 is in \<open>wallet:import --priv\<close>, which exits
  with code 1 and writes nothing when \<open>--algo\<close>, put in lower case by the runtime, is
  not \<open>secp256k1\<close>.
\<close>

theorem key_errors:
  assumes "privateKeySecp256k1 w = Some k" and "k \<noteq> []"
  shows "accountFromWallet L (w\<lparr>algo := a\<rparr>) = fromECDSASECP256K1PrivateKey L k
       \<and> (\<not> truthy (o_mnemonic opts) \<and> \<not> truthy (o_seed opts) \<and> truthy (o_priv opts)
            \<and> toLowerCase L (o_algo opts) \<noteq> ''secp256k1''
          \<longrightarrow> walletImport L opts fs
                = (Exited 1 ''Private key import only supports secp256k1'', fs))"
  using assms by (simp add: accountFromWallet_key walletImport_def)

text \<open>
  A key of one byte, which the sample library rejects, and an import of a key under
  \<open>--algo ED25519\<close>.
\<close>

theorem key_errors_witness:
  "accountFromWallet (sampleLib emptyNet noInfo)
       \<lparr>seed = None, index = None, algo = Some ''ed25519'',
        privateKeySecp256k1 = Some ''zz'', address = None\<rparr>
     = Inl (LibraryError ''invalid key'')
   \<and> walletImport (sampleLib emptyNet noInfo)
       \<lparr>o_seed = None, o_priv = Some (''0x'' @ sampleKey), o_mnemonic = None,
        o_algo = ''ED25519'', o_index = ''0'', o_autoDetect = False, o_network = ''test'',
        o_keyfile = keyfileOption None\<rparr> emptyFS
     = (Exited 1 ''Private key import only supports secp256k1'', emptyFS)"
  using key_errors
    [where w = "\<lparr>seed = None, index = None, algo = None,
         privateKeySecp256k1 = Some ''zz'', address = None\<rparr>" and k = "''zz''"
       and L = "sampleLib emptyNet noInfo" and a = "Some ''ed25519''"
       and opts = "\<lparr>o_seed = None, o_priv = Some (''0x'' @ sampleKey), o_mnemonic = None,
        o_algo = ''ED25519'', o_index = ''0'', o_autoDetect = False, o_network = ''test'',
        o_keyfile = keyfileOption None\<rparr>"
       and fs = emptyFS]
  by (simp add: sampleLib_def sampleFromKey_def isHex32_def truthy_def asciiLowerCase_def)

text \<open>
  A record with a secp256k1 private key of 32 bytes and \<open>algo = ed25519\<close> resolves
  to the account of that key, without an error.
\<close>

theorem key_algorithm_counterexample:
  "accountFromWallet (sampleLib emptyNet noInfo)
       \<lparr>seed = None, index = None, algo = Some ''ed25519'',
        privateKeySecp256k1 = Some sampleKey, address = None\<rparr>
     = Inr (KeyAccount sampleKey)
   \<and> sampleKey = ''4c0883a69102937d6231471b5dbb6204fe5129617082792ae468d01a3f362318''"
proof -
  have "sampleKey \<noteq> []" by (simp add: sampleKey_def)
  with sample_key show ?thesis
    by (simp add: accountFromWallet_def truthy_def sampleLib_def) (simp add: sampleKey_def)
qed

section \<open>The keystore\<close>

text \<open>
  C7. When \<open>saveWallet\<close> of a record at a path succeeds, \<open>loadWallet\<close> at the same
  path returns that record, field for field, absent fields absent. The index of a valid
  record is an integer when present; an index \<open>NaN\<close> would be written as \<open>null\<close>.
\<close>

theorem keystore_round_trip:
  assumes "saveWallet L R P fs = (None, fs')" and "index R \<noteq> Some NaN"
  shows "loadWallet L P fs' = Inr (Some R)"
proof -
  let ?f = "orElse P (defaultKeyfile L)"
  obtain r fs1 where e: "ensureDir ?f fs = (r, fs1)" by (cases "ensureDir ?f fs")
  from assms(1) e have r: "r = None" and w: "writeFileSync ?f (JSON_stringify R) fs1 = (None, fs')"
    by (auto simp: saveWallet_def Let_def split: option.splits)
  from w have f: "files fs' ?f = Some (JSON_stringify R)"
    by (auto simp: writeFileSync_def split: if_splits)
  obtain j where j: "JSON_stringify R = Parses j" by (simp add: JSON_stringify_def)
  from asWallet_stringify [OF assms(2) j] f j show ?thesis
    by (simp add: loadWallet_def Let_def existsSync_def readFileSync_def JSON_parse_def)
qed

text \<open>A seed wallet without an index, saved at the default path of an empty home.\<close>

theorem keystore_round_trip_witness:
  "loadWallet (sampleLib emptyNet noInfo) None
     (snd (saveWallet (sampleLib emptyNet noInfo)
        \<lparr>seed = Some ''5eed'', index = None, algo = Some ''ed25519'',
         privateKeySecp256k1 = None, address = None\<rparr> None emptyFS))
   = Inr (Some \<lparr>seed = Some ''5eed'', index = None, algo = Some ''ed25519'',
         privateKeySecp256k1 = None, address = None\<rparr>)
   \<and> fst (saveWallet (sampleLib emptyNet noInfo)
        \<lparr>seed = Some ''5eed'', index = None, algo = Some ''ed25519'',
         privateKeySecp256k1 = None, address = None\<rparr> None emptyFS) = None"
proof -
  let ?L = "sampleLib emptyNet noInfo"
  let ?R = "\<lparr>seed = Some ''5eed'', index = None, algo = Some ''ed25519'',
         privateKeySecp256k1 = None, address = None\<rparr>"
  have s: "fst (saveWallet ?L ?R None emptyFS) = None"
    by (simp add: saveWallet_def Let_def ensureDir_def mkdirSync_def writeFileSync_def
        orElse_def defaultKeyfile_def sampleLib_def emptyFS_def dirname_def existsSync_def)
  then have "saveWallet ?L ?R None emptyFS = (None, snd (saveWallet ?L ?R None emptyFS))"
    by (metis prod.collapse)
  from keystore_round_trip [OF this] s show ?thesis by simp
qed

section \<open>The search\<close>

text \<open>
  C4. The probes are made in the order ed25519, secp256k1, secp256r1, each with the
  indices 0 to 5 ascending. The total of a pair is the sum of the balances that the
  network answers for its account, when it answers at least one token. The search
  returns a wallet exactly when some pair has a positive total, and the wallet it
  returns is the candidate of the pair whose total is the greatest of all totals and
  strictly greater than the total of every pair probed before it: of the pairs with
  the greatest total, the first in that order.
\<close>

theorem autoDetect_first_greatest:
  "map (\<lambda>(a, i, s). (a, i)) (trace (autoDetect L m net)) = searchOrder
   \<and> searchOrder =
           [(''ed25519'', 0), (''ed25519'', 1), (''ed25519'', 2), (''ed25519'', 3),
            (''ed25519'', 4), (''ed25519'', 5), (''secp256k1'', 0), (''secp256k1'', 1),
            (''secp256k1'', 2), (''secp256k1'', 3), (''secp256k1'', 4), (''secp256k1'', 5),
            (''secp256r1'', 0), (''secp256r1'', 1), (''secp256r1'', 2), (''secp256r1'', 3),
            (''secp256r1'', 4), (''secp256r1'', 5)]
   \<and> ((\<exists>w. foundWallet (autoDetect L m net) = Some w)
        \<longleftrightarrow> (\<exists>p \<in> set searchOrder. \<exists>t. pairSum L m net p = Some t \<and> 0 < t))
   \<and> (\<forall>w. foundWallet (autoDetect L m net) = Some w \<longrightarrow>
         (\<exists>k < length searchOrder. \<exists>sd.
             seedFromPassphrase L m = Inr sd
           \<and> w = testWallet sd (snd (searchOrder ! k)) (fst (searchOrder ! k))
           \<and> pairSum L m net (searchOrder ! k) = Some (maxBalance (autoDetect L m net))
           \<and> 0 < maxBalance (autoDetect L m net)
           \<and> (\<forall>j < length searchOrder. \<forall>t. pairSum L m net (searchOrder ! j) = Some t
                  \<longrightarrow> t \<le> maxBalance (autoDetect L m net))
           \<and> (\<forall>j < k. \<forall>t. pairSum L m net (searchOrder ! j) = Some t
                  \<longrightarrow> t < maxBalance (autoDetect L m net))))"
proof (intro conjI allI impI)
  show "map (\<lambda>(a, i, s). (a, i)) (trace (autoDetect L m net)) = searchOrder"
    by (simp add: autoDetect_trace comp_def)
  show "searchOrder =
           [(''ed25519'', 0), (''ed25519'', 1), (''ed25519'', 2), (''ed25519'', 3),
            (''ed25519'', 4), (''ed25519'', 5), (''secp256k1'', 0), (''secp256k1'', 1),
            (''secp256k1'', 2), (''secp256k1'', 3), (''secp256k1'', 4), (''secp256k1'', 5),
            (''secp256r1'', 0), (''secp256r1'', 1), (''secp256r1'', 2), (''secp256r1'', 3),
            (''secp256r1'', 4), (''secp256r1'', 5)]"
    by (rule searchOrder_eq)
  show "(\<exists>w. foundWallet (autoDetect L m net) = Some w)
        \<longleftrightarrow> (\<exists>p \<in> set searchOrder. \<exists>t. pairSum L m net p = Some t \<and> 0 < t)"
    using autoDetect_found_iff [of L m net] by (simp add: pairTotal_pairSum)
next
  fix w assume "foundWallet (autoDetect L m net) = Some w"
  then have "foundWallet (foldl (stepPair L m net) initSearch searchOrder) = Some w"
    by (simp add: autoDetect_flat)
  from search_selects [OF this] obtain k where k: "k < length searchOrder"
    "pairWallet L m net (searchOrder ! k) = Some w"
    "pairSum L m net (searchOrder ! k) = Some (maxBalance (autoDetect L m net))"
    "0 < maxBalance (autoDetect L m net)"
    "\<forall>j < length searchOrder. \<forall>t. pairSum L m net (searchOrder ! j) = Some t
        \<longrightarrow> t \<le> maxBalance (autoDetect L m net)"
    "\<forall>j < k. \<forall>t. pairSum L m net (searchOrder ! j) = Some t
        \<longrightarrow> t < maxBalance (autoDetect L m net)"
    unfolding autoDetect_flat pairTotal_pairSum by blast
  from pairWallet_testWallet [OF k(2)] obtain sd where
    "seedFromPassphrase L m = Inr sd"
    "w = testWallet sd (snd (searchOrder ! k)) (fst (searchOrder ! k))"
    by blast
  with k show "\<exists>k < length searchOrder. \<exists>sd.
             seedFromPassphrase L m = Inr sd
           \<and> w = testWallet sd (snd (searchOrder ! k)) (fst (searchOrder ! k))
           \<and> pairSum L m net (searchOrder ! k) = Some (maxBalance (autoDetect L m net))
           \<and> 0 < maxBalance (autoDetect L m net)
           \<and> (\<forall>j < length searchOrder. \<forall>t. pairSum L m net (searchOrder ! j) = Some t
                  \<longrightarrow> t \<le> maxBalance (autoDetect L m net))
           \<and> (\<forall>j < k. \<forall>t. pairSum L m net (searchOrder ! j) = Some t
                  \<longrightarrow> t < maxBalance (autoDetect L m net))"
    by blast
qed

text \<open>
  On the network where ed25519 index 0 holds 70, ed25519 index 2 holds 60 and 40 and
  secp256k1 index 0 holds 100, the search returns ed25519 index 2 with the total 100.
\<close>

theorem autoDetect_first_greatest_witness:
  "foundWallet (autoDetect (sampleLib tieNet noInfo) sampleMnemonic ''test'')
     = Some (testWallet sampleSeed 2 ''ed25519'')
   \<and> maxBalance (autoDetect (sampleLib tieNet noInfo) sampleMnemonic ''test'') = 100
   \<and> pairSum (sampleLib tieNet noInfo) sampleMnemonic ''test'' (''ed25519'', 0) = Some 70
   \<and> pairSum (sampleLib tieNet noInfo) sampleMnemonic ''test'' (''ed25519'', 2) = Some 100
   \<and> pairSum (sampleLib tieNet noInfo) sampleMnemonic ''test'' (''secp256k1'', 0) = Some 100"
proof -
  let ?L = "sampleLib tieNet noInfo"
  let ?S = "pairSum ?L sampleMnemonic ''test''"
  let ?M = "maxBalance (autoDetect ?L sampleMnemonic ''test'')"
  have s0: "?S (''ed25519'', 0) = Some 70" by (simp add: sumEval tieNet_def)
  have s2: "?S (''ed25519'', 2) = Some 100" by (simp add: sumEval tieNet_def)
  have s6: "?S (''secp256k1'', 0) = Some 100" by (simp add: sumEval tieNet_def)
  have "\<forall>p \<in> set searchOrder. \<forall>t. ?S p = Some t \<longrightarrow> t \<le> 100"
    by (simp add: searchOrder_eq sumEval tieNet_def)
  then have le: "\<forall>j < length searchOrder. \<forall>t. ?S (searchOrder ! j) = Some t \<longrightarrow> t \<le> 100"
    by (rule nth_all_set)
  have p2: "2 < length searchOrder" "searchOrder ! 2 = (''ed25519'', 2)"
    by (simp_all add: searchOrder_eq)
  from autoDetect_first_greatest [of ?L sampleMnemonic "''test''"] tie_search
  obtain k where k: "k < length searchOrder" "?S (searchOrder ! k) = Some ?M"
    "\<forall>j < length searchOrder. \<forall>t. ?S (searchOrder ! j) = Some t \<longrightarrow> t \<le> ?M"
    by blast
  from k(1,2) le have "?M \<le> 100" by blast
  moreover from k(3) p2 s2 have "100 \<le> ?M" by auto
  ultimately have "?M = 100" by simp
  with tie_search s0 s2 s6 show ?thesis by simp
qed

text \<open>
  C5. When no pair has a positive total, the search finds no wallet, and an import of a
  24-word mnemonic with auto-detection exits with code 1, the file system as it was. A
  wallet that the search returns belongs to a pair whose total is positive, so a pair
  with total zero is never selected.
\<close>

theorem autoDetect_not_found:
  "((\<forall>p \<in> set searchOrder. \<forall>t. pairTotal L m net p = Some t \<longrightarrow> t \<le> 0) \<longrightarrow>
       foundWallet (autoDetect L m net) = None
     \<and> (truthy (o_mnemonic opts) \<and> trim (orElse (o_mnemonic opts) []) = m
          \<and> length (words m) = 24 \<and> o_autoDetect opts \<and> o_network opts = net
        \<longrightarrow> walletImport L opts fs
              = (Exited 1 ''No wallet with balance found on this network'', fs)))
   \<and> (\<forall>w. foundWallet (autoDetect L m net) = Some w \<longrightarrow>
         (\<exists>p \<in> set searchOrder. pairWallet L m net p = Some w
            \<and> (\<exists>t. pairTotal L m net p = Some t \<and> 0 < t)))"
proof (intro conjI impI allI)
  assume a: "\<forall>p \<in> set searchOrder. \<forall>t. pairTotal L m net p = Some t \<longrightarrow> t \<le> 0"
  then show n: "foundWallet (autoDetect L m net) = None" by (rule autoDetect_none)
  assume "truthy (o_mnemonic opts) \<and> trim (orElse (o_mnemonic opts) []) = m
          \<and> length (words m) = 24 \<and> o_autoDetect opts \<and> o_network opts = net"
  with n show "walletImport L opts fs
              = (Exited 1 ''No wallet with balance found on this network'', fs)"
    by (simp add: walletImport_def importMnemonic_def Let_def)
next
  fix w assume "foundWallet (autoDetect L m net) = Some w"
  then have "foundWallet (foldl (stepPair L m net) initSearch searchOrder) = Some w"
    by (simp add: autoDetect_flat)
  from search_selects [OF this] obtain k where "k < length searchOrder"
    "pairWallet L m net (searchOrder ! k) = Some w"
    "pairTotal L m net (searchOrder ! k) = Some (maxBalance (autoDetect L m net))"
    "0 < maxBalance (autoDetect L m net)"
    unfolding autoDetect_flat by blast
  then show "\<exists>p \<in> set searchOrder. pairWallet L m net p = Some w
            \<and> (\<exists>t. pairTotal L m net p = Some t \<and> 0 < t)"
    by (meson nth_mem)
qed

text \<open>
  On the network where every account holds one token of balance zero nothing is
  found and the import exits; on the network of the tie the wallet found has a positive
  total.
\<close>

theorem autoDetect_not_found_witness:
  "foundWallet (autoDetect (sampleLib zeroNet noInfo) sampleMnemonic ''test'') = None
   \<and> walletImport (sampleLib zeroNet noInfo) autoDetectOpts emptyFS
     = (Exited 1 ''No wallet with balance found on this network'', emptyFS)
   \<and> pairTotal (sampleLib zeroNet noInfo) sampleMnemonic ''test'' (''ed25519'', 0) = Some 0
   \<and> (\<exists>p \<in> set searchOrder.
         pairWallet (sampleLib tieNet noInfo) sampleMnemonic ''test'' p
           = Some (testWallet sampleSeed 2 ''ed25519'')
       \<and> (\<exists>t. pairTotal (sampleLib tieNet noInfo) sampleMnemonic ''test'' p = Some t \<and> 0 < t))"
proof -
  let ?L = "sampleLib zeroNet noInfo"
  have a: "\<forall>p \<in> set searchOrder. \<forall>t. pairTotal ?L sampleMnemonic ''test'' p = Some t \<longrightarrow> t \<le> 0"
    by (simp add: searchOrder_eq sampleEval zeroNet_def)
  have b: "truthy (o_mnemonic autoDetectOpts)
         \<and> trim (orElse (o_mnemonic autoDetectOpts) []) = sampleMnemonic
         \<and> length (words sampleMnemonic) = 24 \<and> o_autoDetect autoDetectOpts
         \<and> o_network autoDetectOpts = ''test''"
    using sample_words by (simp add: autoDetectOpts_def truthy_def orElse_def) (simp add: sampleMnemonic_def)
  have z: "pairTotal ?L sampleMnemonic ''test'' (''ed25519'', 0) = Some 0"
    by (simp add: sampleEval zeroNet_def)
  from autoDetect_not_found [of ?L sampleMnemonic "''test''" autoDetectOpts emptyFS] a b
  have "foundWallet (autoDetect ?L sampleMnemonic ''test'') = None
      \<and> walletImport ?L autoDetectOpts emptyFS
        = (Exited 1 ''No wallet with balance found on this network'', emptyFS)"
    by blast
  moreover
  from autoDetect_not_found [of "sampleLib tieNet noInfo" sampleMnemonic "''test''" autoDetectOpts emptyFS]
    tie_search
  have "\<exists>p \<in> set searchOrder.
         pairWallet (sampleLib tieNet noInfo) sampleMnemonic ''test'' p
           = Some (testWallet sampleSeed 2 ''ed25519'')
       \<and> (\<exists>t. pairTotal (sampleLib tieNet noInfo) sampleMnemonic ''test'' p = Some t \<and> 0 < t)"
    by blast
  ultimately show ?thesis using z by blast
qed

text \<open>
  C6. Every one of the 18 pairs is probed and recorded with its own outcome, whatever
  the outcomes of the others. A probe whose balance query throws is a network error;
  such a probe adds its record and changes nothing else of the search, and it has no
  total. So a pair with a positive total that no pair exceeds and no earlier pair
  reaches is returned, wherever the failing probes are.
\<close>

theorem autoDetect_survives_network_errors:
  "trace (autoDetect L m net)
     = map (\<lambda>p. (fst p, snd p, probe L m net (fst p) (snd p))) searchOrder
   \<and> (seedFromPassphrase L m = Inr sd' \<and> accountFromWallet L (testWallet sd' i a) = Inr acct
        \<and> clientFrom L net (Some acct) = Inr c \<and> allBalances L c = Inl e
      \<longrightarrow> probe L m net a i = NetworkError)
   \<and> (probe L m net a i = NetworkError \<longrightarrow>
        autoDetectStep L m net a st i = st\<lparr>trace := trace st @ [(a, i, NetworkError)]\<rparr>
        \<and> pairSum L m net (a, i) = None)
   \<and> (k < length searchOrder \<and> pairSum L m net (searchOrder ! k) = Some t \<and> 0 < t
        \<and> (\<forall>j < k. \<forall>t'. pairSum L m net (searchOrder ! j) = Some t' \<longrightarrow> t' < t)
        \<and> (\<forall>j < length searchOrder. \<forall>t'. pairSum L m net (searchOrder ! j) = Some t' \<longrightarrow> t' \<le> t)
      \<longrightarrow> (\<exists>sd. seedFromPassphrase L m = Inr sd
             \<and> foundWallet (autoDetect L m net)
               = Some (testWallet sd (snd (searchOrder ! k)) (fst (searchOrder ! k)))))"
proof (intro conjI impI)
  show "trace (autoDetect L m net)
     = map (\<lambda>p. (fst p, snd p, probe L m net (fst p) (snd p))) searchOrder"
    by (rule autoDetect_trace)
next
  assume "seedFromPassphrase L m = Inr sd' \<and> accountFromWallet L (testWallet sd' i a) = Inr acct
        \<and> clientFrom L net (Some acct) = Inr c \<and> allBalances L c = Inl e"
  then show "probe L m net a i = NetworkError"
    by (simp add: probe_def)
next
  assume e: "probe L m net a i = NetworkError"
  then show "autoDetectStep L m net a st i = st\<lparr>trace := trace st @ [(a, i, NetworkError)]\<rparr>"
    by (simp add: autoDetectStep_def)
  from e show "pairSum L m net (a, i) = None"
    by (simp add: pairTotal_pairSum [symmetric] pairTotal_def)
next
  assume h: "k < length searchOrder \<and> pairSum L m net (searchOrder ! k) = Some t \<and> 0 < t
        \<and> (\<forall>j < k. \<forall>t'. pairSum L m net (searchOrder ! j) = Some t' \<longrightarrow> t' < t)
        \<and> (\<forall>j < length searchOrder. \<forall>t'. pairSum L m net (searchOrder ! j) = Some t' \<longrightarrow> t' \<le> t)"
  then have k: "k < length searchOrder" and t: "pairTotal L m net (searchOrder ! k) = Some t"
    and pos: "0 < t"
    and before: "\<forall>j < k. \<forall>t'. pairTotal L m net (searchOrder ! j) = Some t' \<longrightarrow> t' < t"
    and all: "\<forall>j < length searchOrder. \<forall>t'. pairTotal L m net (searchOrder ! j) = Some t' \<longrightarrow> t' \<le> t"
    by (simp_all add: pairTotal_pairSum)
  from search_first_greatest [OF k t pos before all]
  have f: "foundWallet (autoDetect L m net) = pairWallet L m net (searchOrder ! k)"
    by (simp add: autoDetect_flat)
  from pairTotal_pairWallet [OF t] obtain w where w: "pairWallet L m net (searchOrder ! k) = Some w"
    by blast
  from pairWallet_testWallet [OF w] f w
  show "\<exists>sd. seedFromPassphrase L m = Inr sd
             \<and> foundWallet (autoDetect L m net)
               = Some (testWallet sd (snd (searchOrder ! k)) (fst (searchOrder ! k)))"
    by auto
qed

text \<open>
  On the network that answers no token on ed25519 index 0, fails on index 1, answers
  5 on index 2 and fails on later pairs, the search records each failure and returns
  ed25519 index 2; so it does on the network that fails on indices 0 and 1.
\<close>

theorem autoDetect_survives_network_errors_witness:
  "foundWallet (autoDetect (sampleLib patchyNet noInfo) sampleMnemonic ''test'')
     = Some (testWallet sampleSeed 2 ''ed25519'')
   \<and> trace (autoDetect (sampleLib patchyNet noInfo) sampleMnemonic ''test'') ! 0
     = (''ed25519'', 0, NoBalance)
   \<and> trace (autoDetect (sampleLib patchyNet noInfo) sampleMnemonic ''test'') ! 1
     = (''ed25519'', 1, NetworkError)
   \<and> trace (autoDetect (sampleLib patchyNet noInfo) sampleMnemonic ''test'') ! 9
     = (''secp256k1'', 3, NetworkError)
   \<and> length (trace (autoDetect (sampleLib patchyNet noInfo) sampleMnemonic ''test'')) = 18
   \<and> foundWallet (autoDetect (sampleLib flakyNet noInfo) sampleMnemonic ''test'')
     = Some (testWallet sampleSeed 2 ''ed25519'')
   \<and> trace (autoDetect (sampleLib flakyNet noInfo) sampleMnemonic ''test'') ! 0
     = (''ed25519'', 0, NetworkError)"
proof -
  let ?P = "sampleLib patchyNet noInfo"
  let ?F = "sampleLib flakyNet noInfo"
  have p: "2 < length searchOrder" "searchOrder ! 2 = (''ed25519'', 2)"
    by (simp_all add: searchOrder_eq)
  have pos: "(0::int) < 5" by simp
  have sp: "seedFromPassphrase ?P sampleMnemonic = Inr sampleSeed"
    "seedFromPassphrase ?F sampleMnemonic = Inr sampleSeed"
    by (simp_all add: sample_phrase)
  have tP: "pairSum ?P sampleMnemonic ''test'' (searchOrder ! 2) = Some 5"
    by (simp add: p sumEval patchyNet_def)
  have "\<forall>q \<in> set (take 2 searchOrder). \<forall>t'. pairSum ?P sampleMnemonic ''test'' q = Some t' \<longrightarrow> t' < 5"
    by (simp add: searchOrder_eq sumEval patchyNet_def)
  then have bP: "\<forall>j < 2. \<forall>t'. pairSum ?P sampleMnemonic ''test'' (searchOrder ! j) = Some t' \<longrightarrow> t' < 5"
    by (rule nth_all_take) (simp add: searchOrder_eq)
  have "\<forall>q \<in> set searchOrder. \<forall>t'. pairSum ?P sampleMnemonic ''test'' q = Some t' \<longrightarrow> t' \<le> 5"
    by (simp add: searchOrder_eq sumEval patchyNet_def)
  then have aP: "\<forall>j < length searchOrder. \<forall>t'. pairSum ?P sampleMnemonic ''test'' (searchOrder ! j) = Some t' \<longrightarrow> t' \<le> 5"
    by (rule nth_all_set)
  have tF: "pairSum ?F sampleMnemonic ''test'' (searchOrder ! 2) = Some 5"
    by (simp add: p sumEval flakyNet_def)
  have "\<forall>q \<in> set (take 2 searchOrder). \<forall>t'. pairSum ?F sampleMnemonic ''test'' q = Some t' \<longrightarrow> t' < 5"
    by (simp add: searchOrder_eq sumEval flakyNet_def)
  then have bF: "\<forall>j < 2. \<forall>t'. pairSum ?F sampleMnemonic ''test'' (searchOrder ! j) = Some t' \<longrightarrow> t' < 5"
    by (rule nth_all_take) (simp add: searchOrder_eq)
  have "\<forall>q \<in> set searchOrder. \<forall>t'. pairSum ?F sampleMnemonic ''test'' q = Some t' \<longrightarrow> t' \<le> 5"
    by (simp add: searchOrder_eq sumEval flakyNet_def)
  then have aF: "\<forall>j < length searchOrder. \<forall>t'. pairSum ?F sampleMnemonic ''test'' (searchOrder ! j) = Some t' \<longrightarrow> t' \<le> 5"
    by (rule nth_all_set)
  from autoDetect_survives_network_errors
    [where L = ?P and m = sampleMnemonic and net = "''test''" and k = 2 and t = 5]
    p tP pos bP aP sp(1)
  have fP: "foundWallet (autoDetect ?P sampleMnemonic ''test'') = Some (testWallet sampleSeed 2 ''ed25519'')"
    and trP: "trace (autoDetect ?P sampleMnemonic ''test'')
      = map (\<lambda>p. (fst p, snd p, probe ?P sampleMnemonic ''test'' (fst p) (snd p))) searchOrder"
    by auto
  from autoDetect_survives_network_errors
    [where L = ?F and m = sampleMnemonic and net = "''test''" and k = 2 and t = 5]
    p tF pos bF aF sp(2)
  have fF: "foundWallet (autoDetect ?F sampleMnemonic ''test'') = Some (testWallet sampleSeed 2 ''ed25519'')"
    and trF: "trace (autoDetect ?F sampleMnemonic ''test'')
      = map (\<lambda>p. (fst p, snd p, probe ?F sampleMnemonic ''test'' (fst p) (snd p))) searchOrder"
    by auto
  have r0: "trace (autoDetect ?P sampleMnemonic ''test'') ! 0 = (''ed25519'', 0, NoBalance)"
    and r1: "trace (autoDetect ?P sampleMnemonic ''test'') ! 1 = (''ed25519'', 1, NetworkError)"
    and r9: "trace (autoDetect ?P sampleMnemonic ''test'') ! 9 = (''secp256k1'', 3, NetworkError)"
    and len: "length (trace (autoDetect ?P sampleMnemonic ''test'')) = 18"
    unfolding trP by (simp_all add: searchOrder_eq sample_probe algoConst_def patchyNet_def)
  have q0: "trace (autoDetect ?F sampleMnemonic ''test'') ! 0 = (''ed25519'', 0, NetworkError)"
    unfolding trF by (simp add: searchOrder_eq sample_probe algoConst_def flakyNet_def)
  from fP r0 r1 r9 len fF q0 show ?thesis by simp
qed

section \<open>The import and the scan\<close>

text \<open>
  C10. In an import of a mnemonic with auto-detection: when no pair has a positive
  total the action exits with code 1 and the file system is as it was, nothing
  written; and when the action leaves the file system changed, the search has found a
  wallet and the action is the save of that wallet.
\<close>

theorem import_autoDetect_saves_only_winner:
  assumes "truthy (o_mnemonic opts)" and "o_autoDetect opts"
  shows "((\<forall>p \<in> set searchOrder. \<forall>t.
             pairTotal L (trim (orElse (o_mnemonic opts) [])) (o_network opts) p = Some t \<longrightarrow> t \<le> 0)
          \<longrightarrow> snd (walletImport L opts fs) = fs
            \<and> (fst (walletImport L opts fs) = Exited 1 ''Mnemonic must be exactly 24 words''
               \<or> fst (walletImport L opts fs)
                  = Exited 1 ''No wallet with balance found on this network''))
       \<and> (snd (walletImport L opts fs) \<noteq> fs
          \<longrightarrow> (\<exists>w. foundWallet (autoDetect L (trim (orElse (o_mnemonic opts) [])) (o_network opts))
                     = Some w
                 \<and> walletImport L opts fs = importSave L opts w fs))"
proof (intro conjI impI)
  let ?m = "trim (orElse (o_mnemonic opts) [])"
  assume "\<forall>p \<in> set searchOrder. \<forall>t. pairTotal L ?m (o_network opts) p = Some t \<longrightarrow> t \<le> 0"
  then have n: "foundWallet (autoDetect L ?m (o_network opts)) = None"
    by (rule autoDetect_none)
  with assms show "snd (walletImport L opts fs) = fs"
    by (simp add: walletImport_def importMnemonic_def Let_def)
  from n assms show "fst (walletImport L opts fs) = Exited 1 ''Mnemonic must be exactly 24 words''
               \<or> fst (walletImport L opts fs)
                  = Exited 1 ''No wallet with balance found on this network''"
    by (simp add: walletImport_def importMnemonic_def Let_def)
next
  let ?m = "trim (orElse (o_mnemonic opts) [])"
  assume c: "snd (walletImport L opts fs) \<noteq> fs"
  show "\<exists>w. foundWallet (autoDetect L ?m (o_network opts)) = Some w
                 \<and> walletImport L opts fs = importSave L opts w fs"
  proof (cases "foundWallet (autoDetect L ?m (o_network opts))")
    case None
    with assms c show ?thesis
      by (simp add: walletImport_def importMnemonic_def Let_def split: if_splits)
  next
    case (Some w)
    with assms c show ?thesis
      by (simp add: walletImport_def importMnemonic_def Let_def split: if_splits)
  qed
qed

text \<open>
  On the empty network the import leaves a file system with a wallet in it untouched;
  on the network of the tie it creates the directory and writes the keystore file.
\<close>

theorem import_autoDetect_saves_only_winner_witness:
  "walletImport (sampleLib emptyNet noInfo) autoDetectOpts keyfileFS
     = (Exited 1 ''No wallet with balance found on this network'', keyfileFS)
   \<and> walletImport (sampleLib tieNet noInfo) autoDetectOpts emptyFS
     = importSave (sampleLib tieNet noInfo) autoDetectOpts (testWallet sampleSeed 2 ''ed25519'') emptyFS
   \<and> journal (snd (walletImport (sampleLib tieNet noInfo) autoDetectOpts emptyFS))
     = [''~/.keeta'', ''~/.keeta/wallet.json'']"
proof -
  let ?L = "sampleLib emptyNet noInfo"
  let ?K = "sampleLib tieNet noInfo"
  have o: "truthy (o_mnemonic autoDetectOpts)" "o_autoDetect autoDetectOpts"
    "trim (orElse (o_mnemonic autoDetectOpts) []) = sampleMnemonic"
    "o_network autoDetectOpts = ''test''"
    using sample_words
    by (simp_all add: autoDetectOpts_def truthy_def orElse_def) (simp add: sampleMnemonic_def)
  have a: "\<forall>p \<in> set searchOrder. \<forall>t. pairTotal ?L sampleMnemonic ''test'' p = Some t \<longrightarrow> t \<le> 0"
    by (simp add: searchOrder_eq sampleEval emptyNet_def)
  have e: "fst (walletImport ?L autoDetectOpts keyfileFS) \<noteq> Exited 1 ''Mnemonic must be exactly 24 words''"
    using o sample_words autoDetect_none [OF a]
    by (simp add: walletImport_def importMnemonic_def Let_def)
  from import_autoDetect_saves_only_winner [OF o(1,2), of ?L keyfileFS] a e o(3,4)
  have first: "walletImport ?L autoDetectOpts keyfileFS
     = (Exited 1 ''No wallet with balance found on this network'', keyfileFS)"
    by (metis prod.collapse)
  have w: "walletImport ?K autoDetectOpts emptyFS
     = importSave ?K autoDetectOpts (testWallet sampleSeed 2 ''ed25519'') emptyFS"
    using o sample_words tie_search by (simp add: walletImport_def importMnemonic_def Let_def)
  have j: "journal (snd (importSave ?K autoDetectOpts (testWallet sampleSeed 2 ''ed25519'') emptyFS))
     = [''~/.keeta'', ''~/.keeta/wallet.json'']"
    using sample_account [of 2 "''ed25519''" tieNet noInfo]
    by (simp add: fsEval autoDetectOpts_def algoConst_def Let_def)
  then have "snd (walletImport ?K autoDetectOpts emptyFS) \<noteq> emptyFS"
    unfolding w by (auto simp: emptyFS_def)
  from import_autoDetect_saves_only_winner [OF o(1,2), of ?K emptyFS] this o(3,4) tie_search
  have "walletImport ?K autoDetectOpts emptyFS
     = importSave ?K autoDetectOpts (testWallet sampleSeed 2 ''ed25519'') emptyFS"
    by auto
  with first j show ?thesis by simp
qed

text \<open>
  C8, as amended. When the list of algorithms is empty after parsing, the scan makes no
  network call, whatever else happens; and once the seed and the range are accepted and
  the read-only client is created it returns normally with an empty result: the empty
  list is not an error.
\<close>

theorem scanBalances_empty_algos:
  assumes "parseAlgos L opts d = []"
  shows "snd (scanBalances L opts fs) = noScan
       \<and> queried (snd (scanBalances L opts fs)) = []
       \<and> (scanSeed L opts fs = Inr (sd, d') \<longrightarrow> scanRange opts = Inr (a, b)
            \<longrightarrow> readOnlyClientFrom L (s_network opts) = Inr c
            \<longrightarrow> scanBalances L opts fs = (Returned, noScan))"
proof -
  have al: "scanAlgos L opts x = Inr []" for x
    using assms by (rule parseAlgos_empty)
  have n: "snd (scanBalances L opts fs) = noScan"
    by (simp add: scanBalances_def al scanLoop_no_algos split: sum.splits prod.splits)
  have r: "scanBalances L opts fs = (Returned, noScan)"
    if "scanSeed L opts fs = Inr (sd, d')" "scanRange opts = Inr (a, b)"
      "readOnlyClientFrom L (s_network opts) = Inr c"
    using that by (simp add: scanBalances_def al scanLoop_no_algos)
  from n r show ?thesis by (simp add: noScan_def)
qed

text \<open>
  A scan from the mnemonic of the single index 3 with \<open>--algos " , "\<close>.
\<close>

theorem scanBalances_empty_algos_witness:
  "scanBalances (sampleLib zeroNet noInfo)
     (commaScan\<lparr>s_mnemonic := Some sampleMnemonic, s_algos := '' , '', s_start := ''3'',
        s_end := ''3''\<rparr>) emptyFS = (Returned, noScan)"
proof -
  let ?L = "sampleLib zeroNet noInfo"
  let ?o = "commaScan\<lparr>s_mnemonic := Some sampleMnemonic, s_algos := '' , '', s_start := ''3'',
        s_end := ''3''\<rparr>"
  have p: "parseAlgos ?L ?o ''ed25519'' = []"
    by (simp add: parseAlgos_def commaScan_def sampleLib_def asciiLowerCase_def trim_def
        spaceLen_def whiteSpace_def)
  have t: "truthy (Some sampleMnemonic)" by (simp add: truthy_def sampleMnemonic_def)
  have s: "scanSeed ?L ?o emptyFS = Inr (sampleSeed, ''ed25519'')"
    using sample_words t
    by (simp add: scanSeed_def commaScan_def orElse_def sample_phrase split: if_splits)
  have r: "scanRange ?o = Inr (3, 3)"
    by (simp add: scanRange_def commaScan_def parseInt_def digitOf_def spaceLen_def
        whiteSpace_def)
  have c: "readOnlyClientFrom ?L (s_network ?o) = Inr None"
    by (simp add: sampleLib_def)
  from scanBalances_empty_algos [OF p, of emptyFS sampleSeed "''ed25519''" 3 3 None] s r c
  show ?thesis by simp
qed

text \<open>
  A scan of the wallet stored at the default path with \<open>--algos ","\<close>: the list is
  empty after \<open>filter(Boolean)\<close>, no algorithm is found invalid, both loops run zero
  times, and the action returns.
\<close>

theorem scanBalances_empty_algos_counterexample:
  "parseAlgos (sampleLib emptyNet noInfo) commaScan ''ed25519'' = []
   \<and> scanBalances (sampleLib emptyNet noInfo) commaScan storedFS = (Returned, noScan)"
proof -
  let ?L = "sampleLib emptyNet noInfo"
  have p: "parseAlgos ?L commaScan ''ed25519'' = []"
    by (simp add: parseAlgos_def commaScan_def sampleLib_def asciiLowerCase_def trim_def
        spaceLen_def whiteSpace_def)
  have l: "loadWallet ?L (Some (defaultKeyfile ?L)) storedFS
             = Inr (Some (testWallet sampleSeed 0 ''ed25519''))"
    by (rule load_stored)
       (simp_all add: storedFS_def defaultKeyfile_def sampleLib_def testWallet_def)
  have ne: "sampleSeed \<noteq> []" by (simp add: sampleSeed_def)
  have s: "scanSeed ?L commaScan storedFS = Inr (sampleSeed, ''ed25519'')"
    using l ne by (simp add: scanSeed_def commaScan_def truthy_def orElse_def testWallet_def)
  have r: "scanRange commaScan = Inr (0, 10)"
    by (simp add: scanRange_def commaScan_def parseInt_def digitOf_def spaceLen_def
        whiteSpace_def)
  have c: "readOnlyClientFrom ?L (s_network commaScan) = Inr None"
    by (simp add: sampleLib_def)
  from p s r c show ?thesis
    by (simp add: scanBalances_def scanAlgos_def scanLoop_no_algos)
qed

text \<open>
  C9. The scan is to load the wallet from the \<open>--keyfile\<close> path, and its option
  text says so. The code calls \<open>loadWallet(defaultKeyfile())\<close>: with the only wallet at
  \<open>/tmp/w.json\<close> and \<open>--keyfile /tmp/w.json\<close>, \<open>wallet:address\<close> prints the
  address of that wallet, and the scan exits with \<open>No wallet seed found\<close>.
\<close>

theorem scanBalances_ignores_keyfile:
  "s_keyfile keyfileScan = Some ''/tmp/w.json''
   \<and> loadWallet (sampleLib emptyNet noInfo) (s_keyfile keyfileScan) keyfileFS
     = Inr (Some (testWallet sampleSeed 0 ''ed25519''))
   \<and> walletAddress (sampleLib emptyNet noInfo) (s_keyfile keyfileScan) keyfileFS
     = (Returned, [samplePublicKey (SeedAccount sampleSeed 0 ED25519)])
   \<and> scanBalances (sampleLib emptyNet noInfo) keyfileScan keyfileFS
     = (Exited 1 ''No wallet seed found. Provide --mnemonic or create/import a wallet first.'', noScan)"
proof -
  let ?L = "sampleLib emptyNet noInfo"
  have l: "loadWallet ?L (Some ''/tmp/w.json'') keyfileFS
             = Inr (Some (testWallet sampleSeed 0 ''ed25519''))"
    by (rule load_stored) (simp_all add: keyfileFS_def testWallet_def)
  have d: "loadWallet ?L (Some (defaultKeyfile ?L)) keyfileFS = Inr None"
    by (simp add: loadWallet_def orElse_def existsSync_def keyfileFS_def defaultKeyfile_def
        sampleLib_def)
  have k: "s_keyfile keyfileScan = Some ''/tmp/w.json''"
    by (simp add: keyfileScan_def keyfileOption_def)
  have a: "walletAddress ?L (Some ''/tmp/w.json'') keyfileFS
             = (Returned, [samplePublicKey (SeedAccount sampleSeed 0 ED25519)])"
    using l sample_account [of 0 "''ed25519''" emptyNet noInfo]
    by (simp add: walletAddress_def getKeyfile_def orElse_def algoConst_def sample_client)
  have s: "scanBalances ?L keyfileScan keyfileFS = (Exited 1 ''No wallet seed found. Provide --mnemonic or create/import a wallet first.'', noScan)"
    using d by (simp add: scanBalances_def scanSeed_def keyfileScan_def truthy_def)
  from k l a s show ?thesis by simp
qed

end
